theory Spec2Isabelle
  imports Main "HOL-Library.Word"
begin

section \<open>Go values used by the VaultSeed backend\<close>

text \<open>
  A Go \<open>string\<close> is a sequence of bytes, as an Isabelle \<open>string\<close> is; \<open>len\<close> counts bytes.
  A \<open>byte\<close> is an 8-bit word whose arithmetic wraps around. The \<open>uint\<close> record ids are
  modelled as \<open>nat\<close>: no arithmetic is done on them by the handlers.
\<close>

type_synonym byte = "8 word"

datatype go_panic = IndexOutOfRange | SliceOutOfRange

definition go_index :: "'a list \<Rightarrow> nat \<Rightarrow> go_panic + 'a" where
  \<comment> \<open>\<open>xs[i]\<close>: a run-time panic when \<open>i\<close> is out of range\<close>
  "go_index xs i = (if i < length xs then Inr (xs ! i) else Inl IndexOutOfRange)"

definition go_slice :: "'a list \<Rightarrow> nat \<Rightarrow> nat \<Rightarrow> go_panic + 'a list" where
  \<comment> \<open>\<open>xs[lo:hi]\<close>: a run-time panic unless \<open>lo \<le> hi \<le> len(xs)\<close>\<close>
  "go_slice xs lo hi =
     (if lo \<le> hi \<and> hi \<le> length xs then Inr (take (hi - lo) (drop lo xs))
      else Inl SliceOutOfRange)"

definition go_store :: "'a list \<Rightarrow> nat \<Rightarrow> 'a \<Rightarrow> go_panic + 'a list" where
  \<comment> \<open>\<open>xs[i] = v\<close>\<close>
  "go_store xs i v = (if i < length xs then Inr (xs[i := v]) else Inl IndexOutOfRange)"

definition HasPrefix :: "string \<Rightarrow> string \<Rightarrow> bool" where
  \<comment> \<open>\<open>strings.HasPrefix(s, prefix)\<close>\<close>
  "HasPrefix s p = (take (length p) s = p)"

subsection \<open>Decimal and hexadecimal text\<close>

definition digit_char :: "nat \<Rightarrow> char" where
  "digit_char d = ''0123456789abcdef'' ! d"

function fmt_d :: "nat \<Rightarrow> string" where
  \<comment> \<open>the verb \<open>%d\<close> of \<open>fmt.Sprintf\<close> on an unsigned value\<close>
  "fmt_d n = (if n < 10 then [digit_char n] else fmt_d (n div 10) @ [digit_char (n mod 10)])"
  by pat_completeness auto
termination
  by (relation "measure id") auto

declare fmt_d.simps [simp del]

definition hex_byte :: "byte \<Rightarrow> string" where
  "hex_byte b = [digit_char (unat b div 16), digit_char (unat b mod 16)]"

definition EncodeToString :: "byte list \<Rightarrow> string" where
  \<comment> \<open>\<open>hex.EncodeToString\<close>: two lower-case digits per byte\<close>
  "EncodeToString bs = concat (map hex_byte bs)"

definition fromHexChar :: "char \<Rightarrow> nat option" where
  "fromHexChar c =
     (let n = (of_char c :: nat) in
      if 48 \<le> n \<and> n \<le> 57 then Some (n - 48)
      else if 97 \<le> n \<and> n \<le> 102 then Some (n - 87)
      else if 65 \<le> n \<and> n \<le> 70 then Some (n - 55)
      else None)"

fun DecodeString :: "string \<Rightarrow> byte list option" where
  \<comment> \<open>\<open>hex.DecodeString\<close>: an error on a character that is no hex digit and on odd length\<close>
  "DecodeString [] = Some []"
| "DecodeString [c] = None"
| "DecodeString (a # b # cs) =
     (case fromHexChar a of
        None \<Rightarrow> None
      | Some x \<Rightarrow>
          (case fromHexChar b of
             None \<Rightarrow> None
           | Some y \<Rightarrow>
               (case DecodeString cs of
                  None \<Rightarrow> None
                | Some bs \<Rightarrow> Some (of_nat (16 * x + y) # bs))))"

definition has0xPrefix :: "string \<Rightarrow> bool" where
  "has0xPrefix input =
     (length input \<ge> 2 \<and> input ! 0 = CHR ''0'' \<and> (input ! 1 = CHR ''x'' \<or> input ! 1 = CHR ''X''))"

definition hexutil_Decode :: "string \<Rightarrow> byte list option" where
  \<comment> \<open>\<open>hexutil.Decode\<close> of go-ethereum: the empty string and a string without the
      prefix are errors, the rest is decoded by \<open>hex.DecodeString\<close>; \<open>None\<close> is the error\<close>
  "hexutil_Decode input =
     (if length input = 0 then None
      else if \<not> has0xPrefix input then None
      else DecodeString (drop 2 input))"

section \<open>Library functions taken as parameters\<close>

text \<open>
  The hash, the public-key recovery and the address derivation belong to go-ethereum,
  \<open>strings.TrimSpace\<close> and \<open>strings.ToLower\<close> follow the Unicode tables,
  the comparison of an integer column with a text parameter belongs to SQLite, and the
  validator's \<open>max=100\<close> counts runes. None of them is code of this repository: the model takes them as the fields of one record, and every
  general theorem below holds for all of them. \<open>None\<close> from \<open>SigToPub\<close> is its error.
\<close>

record libs =
  TrimSpace :: "string \<Rightarrow> string"
  ToLower :: "string \<Rightarrow> string"
  Keccak256Hash :: "string \<Rightarrow> byte list"
  SigToPub :: "byte list \<Rightarrow> byte list \<Rightarrow> byte list option"
  PubkeyToAddress :: "byte list \<Rightarrow> byte list"
  AddressHex :: "byte list \<Rightarrow> string"
  TextIsID :: "string \<Rightarrow> nat \<Rightarrow> bool"
  RuneCountInString :: "string \<Rightarrow> nat"

section \<open>utils: the signature verifier and the challenge strings\<close>

definition cleanMessage :: "libs \<Rightarrow> string \<Rightarrow> go_panic + string" where
  \<comment> \<open>the first lines of \<open>VerifyEthereumSignature\<close>: trim, drop one pair of enclosing
      double quotes, trim again\<close>
  "cleanMessage L message =
     (let c = TrimSpace L message in
      if length c \<ge> 2 then
        (case go_index c 0 of
           Inl p \<Rightarrow> Inl p
         | Inr c0 \<Rightarrow>
             if c0 = CHR 0x22 then
               (case go_index c (length c - 1) of
                  Inl p \<Rightarrow> Inl p
                | Inr cl \<Rightarrow>
                    if cl = CHR 0x22 then
                      (case go_slice c 1 (length c - 1) of
                         Inl p \<Rightarrow> Inl p
                       | Inr c' \<Rightarrow> Inr (TrimSpace L c'))
                    else Inr (TrimSpace L c))
             else Inr (TrimSpace L c))
      else Inr (TrimSpace L c))"

definition adjustV :: "byte \<Rightarrow> byte" where
  \<comment> \<open>the value stored in \<open>adjustedSigBytes[64]\<close>; \<open>v - 35 - 2\<close> is \<open>uint8\<close> arithmetic\<close>
  "adjustV v =
     (if v = 27 \<or> v = 28 then v - 27
      else if v = 0 \<or> v = 1 then v
      else if v \<ge> 35 then v - 35 - 2
      else if v \<ge> 27 then v - 27
      else 0)"

definition signedMessage :: "string \<Rightarrow> string" where
  \<comment> \<open>\<open>fmt.Sprintf("\x19Ethereum Signed Message:\n%d%s", len(msgBytes), cleanedMessage)\<close>\<close>
  "signedMessage cleaned =
     CHR 0x19 # ''Ethereum Signed Message:'' @ [CHR 0x0A] @ fmt_d (length cleaned) @ cleaned"

definition decodeSignature :: "string \<Rightarrow> byte list option" where
  \<comment> \<open>\<open>if !strings.HasPrefix(signature, "0x") { signature = "0x" + signature }\<close>, then
      \<open>hexutil.Decode(signature)\<close>\<close>
  "decodeSignature signature =
     hexutil_Decode (if \<not> HasPrefix signature ''0x'' then ''0x'' @ signature else signature)"

definition VerifyEthereumSignature ::
  "libs \<Rightarrow> string \<Rightarrow> string \<Rightarrow> string \<Rightarrow> go_panic + bool" where
  "VerifyEthereumSignature L message signature expectedAddress =
     (case cleanMessage L message of
        Inl p \<Rightarrow> Inl p
      | Inr cleanedMessage \<Rightarrow>
          (case decodeSignature signature of
             None \<Rightarrow> Inr False
           | Some sigBytes \<Rightarrow>
               if length sigBytes \<noteq> 65 then Inr False
               else
                 (case go_index sigBytes 64 of
                    Inl p \<Rightarrow> Inl p
                  | Inr v \<Rightarrow>
                      (case go_store sigBytes 64 (adjustV v) of
                         Inl p \<Rightarrow> Inl p
                       | Inr adjustedSigBytes \<Rightarrow>
                           (let hash = Keccak256Hash L (signedMessage cleanedMessage) in
                            case SigToPub L hash adjustedSigBytes of
                              None \<Rightarrow> Inr False
                            | Some pubKey \<Rightarrow>
                                Inr (ToLower L (AddressHex L (PubkeyToAddress L pubKey))
                                       = ToLower L expectedAddress))))))"

definition GenerateMessageForSigning :: "string \<Rightarrow> string \<Rightarrow> string" where
  "GenerateMessageForSigning address nonce =
     ''Sign this message to authenticate with VaultSeed. Address: '' @ address
       @ '', Nonce: '' @ nonce"

definition GenerateDecryptMessage :: "nat \<Rightarrow> string \<Rightarrow> string" where
  "GenerateDecryptMessage contentID nonce =
     ''Sign this message to decrypt content. Content ID: '' @ fmt_d contentID
       @ '', Nonce: '' @ nonce"

section \<open>models: rows, requests and responses\<close>

text \<open>
  The fields keep the names of the Go structs behind a prefix for the struct (\<open>u\<close> for
  \<open>User\<close>, \<open>c\<close> for \<open>EncryptedContent\<close>, \<open>lr\<close>, \<open>cc\<close> and \<open>dc\<close> for the three
  request structs). Times are readings of a clock that counts in \<open>nat\<close>.
\<close>

record User =
  uID :: nat
  uAddress :: string
  uPublicKey :: string
  uNonce :: string
  uCreatedAt :: nat
  uUpdatedAt :: nat

record EncryptedContent =
  cID :: nat
  cUserAddress :: string
  cTitle :: string
  cEncryptedData :: string
  cEncryptedKey :: string
  cIV :: string
  cNonce :: string
  cCreatedAt :: nat
  cUpdatedAt :: nat

record LoginRequest =
  lrAddress :: string
  lrSignature :: string
  lrMessage :: string
  lrNonce :: string

record CreateContentRequest =
  ccTitle :: string
  ccEncryptedKey :: string
  ccIV :: string
  ccEncryptedData :: string

record DecryptContentRequest =
  dcContentID :: nat
  dcSignature :: string
  dcMessage :: string
  dcNonce :: string

record ContentResponse =
  crID :: nat
  crTitle :: string
  crCreatedAt :: nat

record ContentDetailResponse =
  cdID :: nat
  cdTitle :: string
  cdContent :: string
  cdCreatedAt :: nat

datatype body =
    ErrorResponse string
  | LoginResponse bool string string
      \<comment> \<open>\<open>Success\<close>, \<open>Token\<close>, \<open>Address\<close>\<close>
  | NonceJSON string
      \<comment> \<open>\<open>gin.H{"nonce": nonce}\<close>\<close>
  | CreatedJSON nat
      \<comment> \<open>\<open>gin.H{"success": true, "id": content.ID}\<close>\<close>
  | ListJSON "ContentResponse list"
      \<comment> \<open>\<open>gin.H{"success": true, "contents": response}\<close>\<close>
  | DecryptJSON ContentDetailResponse string string string
      \<comment> \<open>\<open>content\<close>, \<open>encrypted_data\<close>, \<open>encrypted_key\<close>, \<open>iv\<close>\<close>
  | DetailJSON nat string nat string
      \<comment> \<open>\<open>id\<close>, \<open>title\<close>, \<open>created_at\<close>, \<open>nonce\<close>\<close>
  | NoBody
      \<comment> \<open>what gin's recovery writes after a panic, with status 500\<close>

type_synonym response = "nat \<times> body"

abbreviation StatusOK :: nat where "StatusOK \<equiv> 200"
abbreviation StatusBadRequest :: nat where "StatusBadRequest \<equiv> 400"
abbreviation StatusUnauthorized :: nat where "StatusUnauthorized \<equiv> 401"
abbreviation StatusNotFound :: nat where "StatusNotFound \<equiv> 404"
abbreviation StatusInternalServerError :: nat where "StatusInternalServerError \<equiv> 500"

section \<open>The process state: database, random source, clock\<close>

text \<open>
  The two tables hold their rows in primary-key order. \<open>entropy\<close> is what
  \<open>crypto/rand\<close> will deliver; reading more than is left is its error. \<open>db_faults\<close>
  scripts storage failures: every database call consumes one flag, \<open>True\<close> makes the
  call fail with an error other than \<open>ErrRecordNotFound\<close> and change nothing, and the
  empty list is a healthy store.
\<close>

record world =
  users :: "User list"
  contents :: "EncryptedContent list"
  next_user_id :: nat
  next_content_id :: nat
  clock :: nat
  entropy :: "byte list"
  db_faults :: "bool list"

datatype db_error = ErrRecordNotFound | ErrOther

definition db_call :: "world \<Rightarrow> bool \<times> world" where
  "db_call w = (case db_faults w of [] \<Rightarrow> (False, w) | f # fs \<Rightarrow> (f, w\<lparr>db_faults := fs\<rparr>))"

definition rand_Read :: "nat \<Rightarrow> world \<Rightarrow> byte list option \<times> world" where
  "rand_Read n w =
     (if length (entropy w) < n then (None, w)
      else (Some (take n (entropy w)), w\<lparr>entropy := drop n (entropy w)\<rparr>))"

definition GenerateNonce :: "world \<Rightarrow> string option \<times> world" where
  "GenerateNonce w =
     (case rand_Read 32 w of
        (None, w') \<Rightarrow> (None, w')
      | (Some bytes, w') \<Rightarrow> (Some (EncodeToString bytes), w'))"

definition first_user :: "string \<Rightarrow> world \<Rightarrow> (db_error + User) \<times> world" where
  \<comment> \<open>\<open>db.Where("address = ?", address).First(&user)\<close>\<close>
  "first_user address w =
     (case db_call w of
        (True, w') \<Rightarrow> (Inl ErrOther, w')
      | (False, w') \<Rightarrow>
          (case find (\<lambda>u. uAddress u = address) (users w') of
             None \<Rightarrow> (Inl ErrRecordNotFound, w')
           | Some u \<Rightarrow> (Inr u, w')))"

definition create_user :: "User \<Rightarrow> world \<Rightarrow> (db_error + User) \<times> world" where
  \<comment> \<open>\<open>db.Create(&user)\<close>: the address column has a unique index; the row gets the next
      id and both timestamps\<close>
  "create_user user w =
     (case db_call w of
        (True, w') \<Rightarrow> (Inl ErrOther, w')
      | (False, w') \<Rightarrow>
          if uAddress user \<in> set (map uAddress (users w')) then (Inl ErrOther, w')
          else
            (let row = user\<lparr>uID := next_user_id w', uCreatedAt := clock w', uUpdatedAt := clock w'\<rparr>
             in (Inr row, w'\<lparr>users := users w' @ [row], next_user_id := next_user_id w' + 1\<rparr>)))"

definition save_user :: "User \<Rightarrow> world \<Rightarrow> (db_error + User) \<times> world" where
  \<comment> \<open>\<open>db.Save(&user)\<close>: update the row with this primary key, insert when there is none\<close>
  "save_user user w =
     (case db_call w of
        (True, w') \<Rightarrow> (Inl ErrOther, w')
      | (False, w') \<Rightarrow>
          (let row = user\<lparr>uUpdatedAt := clock w'\<rparr> in
           if uID user \<in> set (map uID (users w'))
           then (Inr row, w'\<lparr>users := map (\<lambda>u. if uID u = uID user then row else u) (users w')\<rparr>)
           else (Inr row, w'\<lparr>users := users w' @ [row]\<rparr>)))"

definition first_content :: "nat \<Rightarrow> string \<Rightarrow> world \<Rightarrow> (db_error + EncryptedContent) \<times> world" where
  \<comment> \<open>\<open>db.Where("id = ? AND user_address = ?", req.ContentID, userAddress).First(&content)\<close>\<close>
  "first_content contentID userAddress w =
     (case db_call w of
        (True, w') \<Rightarrow> (Inl ErrOther, w')
      | (False, w') \<Rightarrow>
          (case find (\<lambda>c. cID c = contentID \<and> cUserAddress c = userAddress) (contents w') of
             None \<Rightarrow> (Inl ErrRecordNotFound, w')
           | Some c \<Rightarrow> (Inr c, w')))"

definition first_content_text ::
  "libs \<Rightarrow> string \<Rightarrow> string \<Rightarrow> world \<Rightarrow> (db_error + EncryptedContent) \<times> world" where
  \<comment> \<open>the same query with the path parameter, a string, in the place of the id\<close>
  "first_content_text L contentID userAddress w =
     (case db_call w of
        (True, w') \<Rightarrow> (Inl ErrOther, w')
      | (False, w') \<Rightarrow>
          (case find (\<lambda>c. TextIsID L contentID (cID c) \<and> cUserAddress c = userAddress) (contents w') of
             None \<Rightarrow> (Inl ErrRecordNotFound, w')
           | Some c \<Rightarrow> (Inr c, w')))"

definition find_contents :: "string \<Rightarrow> world \<Rightarrow> (db_error + EncryptedContent list) \<times> world" where
  \<comment> \<open>\<open>db.Where("user_address = ?", userAddress).Order("created_at DESC").Find(&contents)\<close>;
      SQL leaves the order of rows created at the same time open, here they keep the
      order of the table\<close>
  "find_contents userAddress w =
     (case db_call w of
        (True, w') \<Rightarrow> (Inl ErrOther, w')
      | (False, w') \<Rightarrow>
          (Inr (sort_key (\<lambda>c. - int (cCreatedAt c))
                  (filter (\<lambda>c. cUserAddress c = userAddress) (contents w'))), w'))"

definition create_content :: "EncryptedContent \<Rightarrow> world \<Rightarrow> (db_error + EncryptedContent) \<times> world" where
  \<comment> \<open>\<open>db.Create(&content)\<close>\<close>
  "create_content content w =
     (case db_call w of
        (True, w') \<Rightarrow> (Inl ErrOther, w')
      | (False, w') \<Rightarrow>
          (let row = content\<lparr>cID := next_content_id w', cCreatedAt := clock w', cUpdatedAt := clock w'\<rparr>
           in (Inr row, w'\<lparr>contents := contents w' @ [row], next_content_id := next_content_id w' + 1\<rparr>)))"

definition save_content :: "EncryptedContent \<Rightarrow> world \<Rightarrow> (db_error + EncryptedContent) \<times> world" where
  \<comment> \<open>\<open>db.Save(&content)\<close>\<close>
  "save_content content w =
     (case db_call w of
        (True, w') \<Rightarrow> (Inl ErrOther, w')
      | (False, w') \<Rightarrow>
          (let row = content\<lparr>cUpdatedAt := clock w'\<rparr> in
           if cID content \<in> set (map cID (contents w'))
           then (Inr row, w'\<lparr>contents := map (\<lambda>c. if cID c = cID content then row else c) (contents w')\<rparr>)
           else (Inr row, w'\<lparr>contents := contents w' @ [row]\<rparr>)))"

section \<open>handlers\<close>

text \<open>
  A handler takes the decoded JSON body (\<open>None\<close> when the body is no JSON of the
  struct's shape), the request's \<open>Authorization\<close> header or query parameter, and the
  state; it returns the response and the new state. \<open>ShouldBindJSON\<close> also enforces the
  \<open>binding\<close> tags of the struct: a \<open>required\<close> field must not be the zero value.
  The router is \<open>gin.Default()\<close>, whose recovery turns a panic into status 500.
\<close>

definition ShouldBindJSON_Login :: "LoginRequest option \<Rightarrow> LoginRequest option" where
  "ShouldBindJSON_Login body =
     (case body of
        None \<Rightarrow> None
      | Some req \<Rightarrow>
          if lrAddress req \<noteq> [] \<and> lrSignature req \<noteq> [] \<and> lrMessage req \<noteq> [] \<and> lrNonce req \<noteq> []
          then Some req else None)"

definition ShouldBindJSON_Create :: "libs \<Rightarrow> CreateContentRequest option \<Rightarrow> CreateContentRequest option" where
  "ShouldBindJSON_Create L body =
     (case body of
        None \<Rightarrow> None
      | Some req \<Rightarrow>
          if ccTitle req \<noteq> [] \<and> RuneCountInString L (ccTitle req) \<le> 100
             \<and> ccEncryptedKey req \<noteq> [] \<and> ccIV req \<noteq> [] \<and> ccEncryptedData req \<noteq> []
          then Some req else None)"

definition ShouldBindJSON_Decrypt :: "DecryptContentRequest option \<Rightarrow> DecryptContentRequest option" where
  "ShouldBindJSON_Decrypt body =
     (case body of
        None \<Rightarrow> None
      | Some req \<Rightarrow>
          if dcContentID req \<noteq> 0 \<and> dcSignature req \<noteq> [] \<and> dcMessage req \<noteq> [] \<and> dcNonce req \<noteq> []
          then Some req else None)"

definition headerAddress :: "string \<Rightarrow> string" where
  \<comment> \<open>\<open>userAddress = authHeader; if idx := len(userAddress); idx > 42 { userAddress = userAddress[:42] }\<close>\<close>
  "headerAddress authHeader = (if length authHeader > 42 then take 42 authHeader else authHeader)"

subsection \<open>auth\<close>

definition LoginHandler_rotate :: "LoginRequest \<Rightarrow> User \<Rightarrow> world \<Rightarrow> response \<times> world" where
  \<comment> \<open>the end of \<open>LoginHandler\<close>, reached with the row found or just created; the result
      of \<open>db.Save\<close> is not looked at\<close>
  "LoginHandler_rotate req user w =
     (case GenerateNonce w of
        (None, w1) \<Rightarrow>
          ((StatusInternalServerError, ErrorResponse ''Failed to generate nonce''), w1)
      | (Some newNonce, w1) \<Rightarrow>
          (case save_user (user\<lparr>uNonce := newNonce\<rparr>) w1 of
             (_, w2) \<Rightarrow>
               ((StatusOK, LoginResponse True (lrAddress req @ '':'' @ newNonce) (lrAddress req)), w2)))"

definition LoginHandler :: "libs \<Rightarrow> LoginRequest option \<Rightarrow> world \<Rightarrow> response \<times> world" where
  "LoginHandler L body w =
     (case ShouldBindJSON_Login body of
        None \<Rightarrow> ((StatusBadRequest, ErrorResponse ''Invalid request format''), w)
      | Some req \<Rightarrow>
          (case VerifyEthereumSignature L (lrMessage req) (lrSignature req) (lrAddress req) of
             Inl p \<Rightarrow> ((StatusInternalServerError, NoBody), w)
           | Inr ok \<Rightarrow>
               if \<not> ok then ((StatusUnauthorized, ErrorResponse ''Invalid signature''), w)
               else
                 (case first_user (lrAddress req) w of
                    (Inl ErrRecordNotFound, w1) \<Rightarrow>
                      (case GenerateNonce w1 of
                         (None, w2) \<Rightarrow>
                           ((StatusInternalServerError, ErrorResponse ''Failed to generate nonce''), w2)
                       | (Some nonce, w2) \<Rightarrow>
                           (case create_user \<lparr>uID = 0, uAddress = lrAddress req, uPublicKey = [],
                                              uNonce = nonce, uCreatedAt = 0, uUpdatedAt = 0\<rparr> w2 of
                              (Inl e, w3) \<Rightarrow>
                                ((StatusInternalServerError, ErrorResponse ''Failed to create user''), w3)
                            | (Inr user, w3) \<Rightarrow> LoginHandler_rotate req user w3))
                  | (Inl ErrOther, w1) \<Rightarrow>
                      ((StatusInternalServerError, ErrorResponse ''Database error''), w1)
                  | (Inr user, w1) \<Rightarrow> LoginHandler_rotate req user w1)))"

definition GetNonceHandler :: "string \<Rightarrow> world \<Rightarrow> response \<times> world" where
  "GetNonceHandler address w =
     (if address = [] then ((StatusBadRequest, ErrorResponse ''Address is required''), w)
      else
        (case first_user address w of
           (Inl ErrRecordNotFound, w1) \<Rightarrow>
             (case GenerateNonce w1 of
                (None, w2) \<Rightarrow>
                  ((StatusInternalServerError, ErrorResponse ''Failed to generate nonce''), w2)
              | (Some newNonce, w2) \<Rightarrow> ((StatusOK, NonceJSON newNonce), w2))
         | (Inl ErrOther, w1) \<Rightarrow>
             ((StatusInternalServerError, ErrorResponse ''Database error''), w1)
         | (Inr user, w1) \<Rightarrow> ((StatusOK, NonceJSON (uNonce user)), w1)))"

subsection \<open>content\<close>

definition CreateContentHandler ::
  "libs \<Rightarrow> CreateContentRequest option \<Rightarrow> string \<Rightarrow> world \<Rightarrow> response \<times> world" where
  "CreateContentHandler L body authHeader w =
     (case ShouldBindJSON_Create L body of
        None \<Rightarrow> ((StatusBadRequest, ErrorResponse ''Invalid request format''), w)
      | Some req \<Rightarrow>
          if authHeader = [] then
            ((StatusUnauthorized, ErrorResponse ''Missing authorization header''), w)
          else
            (let userAddress = headerAddress authHeader in
             case first_user userAddress w of
               (Inl e, w1) \<Rightarrow> ((StatusUnauthorized, ErrorResponse ''User not found''), w1)
             | (Inr user, w1) \<Rightarrow>
                 (case GenerateNonce w1 of
                    (None, w2) \<Rightarrow>
                      ((StatusInternalServerError, ErrorResponse ''Failed to generate nonce''), w2)
                  | (Some nonce, w2) \<Rightarrow>
                      (case create_content
                              \<lparr>cID = 0, cUserAddress = userAddress, cTitle = ccTitle req,
                               cEncryptedData = ccEncryptedData req, cEncryptedKey = ccEncryptedKey req,
                               cIV = ccIV req, cNonce = nonce, cCreatedAt = 0, cUpdatedAt = 0\<rparr> w2 of
                         (Inl e, w3) \<Rightarrow>
                           ((StatusInternalServerError, ErrorResponse ''Failed to save content''), w3)
                       | (Inr content, w3) \<Rightarrow> ((StatusOK, CreatedJSON (cID content)), w3)))))"

definition ListContentHandler :: "string \<Rightarrow> world \<Rightarrow> response \<times> world" where
  "ListContentHandler authHeader w =
     (if authHeader = [] then
        ((StatusUnauthorized, ErrorResponse ''Missing authorization header''), w)
      else
        (let userAddress = headerAddress authHeader in
         case find_contents userAddress w of
           (Inl e, w1) \<Rightarrow>
             ((StatusInternalServerError, ErrorResponse ''Failed to fetch content''), w1)
         | (Inr rows, w1) \<Rightarrow>
             ((StatusOK,
               ListJSON (map (\<lambda>content. \<lparr>crID = cID content, crTitle = cTitle content,
                                          crCreatedAt = cCreatedAt content\<rparr>) rows)), w1)))"

definition DecryptContentHandler ::
  "libs \<Rightarrow> DecryptContentRequest option \<Rightarrow> string \<Rightarrow> world \<Rightarrow> response \<times> world" where
  "DecryptContentHandler L body authHeader w =
     (case ShouldBindJSON_Decrypt body of
        None \<Rightarrow> ((StatusBadRequest, ErrorResponse ''Invalid request format''), w)
      | Some req \<Rightarrow>
          if authHeader = [] then
            ((StatusUnauthorized, ErrorResponse ''Missing authorization header''), w)
          else
            (let userAddress = headerAddress authHeader;
                 expectedMessage = GenerateDecryptMessage (dcContentID req) (dcNonce req) in
             case VerifyEthereumSignature L expectedMessage (dcSignature req) userAddress of
               Inl p \<Rightarrow> ((StatusInternalServerError, NoBody), w)
             | Inr ok \<Rightarrow>
                 if \<not> ok then ((StatusUnauthorized, ErrorResponse ''Invalid signature''), w)
                 else
                   (case first_content (dcContentID req) userAddress w of
                      (Inl ErrRecordNotFound, w1) \<Rightarrow>
                        ((StatusNotFound, ErrorResponse ''Content not found''), w1)
                    | (Inl ErrOther, w1) \<Rightarrow>
                        ((StatusInternalServerError, ErrorResponse ''Failed to fetch content''), w1)
                    | (Inr content, w1) \<Rightarrow>
                        if cNonce content \<noteq> dcNonce req then
                          ((StatusUnauthorized, ErrorResponse ''Invalid nonce''), w1)
                        else
                          (case GenerateNonce w1 of
                             (None, w2) \<Rightarrow>
                               ((StatusInternalServerError, ErrorResponse ''Failed to generate nonce''), w2)
                           | (Some newNonce, w2) \<Rightarrow>
                               (case save_content (content\<lparr>cNonce := newNonce\<rparr>) w2 of
                                  (_, w3) \<Rightarrow>
                                    ((StatusOK,
                                      DecryptJSON
                                        \<lparr>cdID = cID content, cdTitle = cTitle content,
                                         cdContent = ''[ENCRYPTED - DECRYPT ON CLIENT]'',
                                         cdCreatedAt = cCreatedAt content\<rparr>
                                        (cEncryptedData content) (cEncryptedKey content)
                                        (cIV content)), w3))))))"

definition GetContentDetailHandler :: "libs \<Rightarrow> string \<Rightarrow> string \<Rightarrow> world \<Rightarrow> response \<times> world" where
  "GetContentDetailHandler L contentID authHeader w =
     (if contentID = [] then ((StatusBadRequest, ErrorResponse ''Content ID is required''), w)
      else if authHeader = [] then
        ((StatusUnauthorized, ErrorResponse ''Missing authorization header''), w)
      else
        (let userAddress = headerAddress authHeader in
         case first_content_text L contentID userAddress w of
           (Inl ErrRecordNotFound, w1) \<Rightarrow>
             ((StatusNotFound, ErrorResponse ''Content not found''), w1)
         | (Inl ErrOther, w1) \<Rightarrow>
             ((StatusInternalServerError, ErrorResponse ''Failed to fetch content''), w1)
         | (Inr content, w1) \<Rightarrow>
             ((StatusOK,
               DetailJSON (cID content) (cTitle content) (cCreatedAt content) (cNonce content)), w1)))"

section \<open>A stand-in for the libraries\<close>

text \<open>
  To run the handlers on concrete requests the library parameters need values. The
  stand-in keeps the shape of the real ones and none of their strength: \<open>demo_hash\<close>
  is the length and the byte sum of its input, and \<open>demo_SigToPub\<close> accepts a signature
  that starts with the hash and has a recovery id of at most 3, and recovers bytes 32 to 51
  of it as the key, which is also the address. The ASCII cases of \<open>TrimSpace\<close> and
  \<open>ToLower\<close> are the real ones. Only the closed examples use the stand-in.
\<close>

definition demo_isSpace :: "char \<Rightarrow> bool" where
  "demo_isSpace c = (c \<in> set [CHR 0x20, CHR 0x09, CHR 0x0A, CHR 0x0B, CHR 0x0C, CHR 0x0D])"

definition demo_TrimSpace :: "string \<Rightarrow> string" where
  "demo_TrimSpace s = rev (dropWhile demo_isSpace (rev (dropWhile demo_isSpace s)))"

definition demo_lower :: "char \<Rightarrow> char" where
  "demo_lower c =
     (let n = (of_char c :: nat) in if 65 \<le> n \<and> n \<le> 90 then char_of (n + 32) else c)"

definition demo_hash :: "string \<Rightarrow> byte list" where
  "demo_hash s = [of_nat (length s), sum_list (map of_char s)]"

definition demo_SigToPub :: "byte list \<Rightarrow> byte list \<Rightarrow> byte list option" where
  "demo_SigToPub hash sig =
     (if length sig = 65 \<and> take (length hash) sig = hash \<and> sig ! 64 \<le> 3
      then Some (take 20 (drop 32 sig)) else None)"

definition demo_libs :: libs where
  "demo_libs =
     \<lparr>TrimSpace = demo_TrimSpace, ToLower = map demo_lower, Keccak256Hash = demo_hash,
      SigToPub = demo_SigToPub, PubkeyToAddress = (\<lambda>k. k),
      AddressHex = (\<lambda>a. ''0x'' @ EncodeToString a), TextIsID = (\<lambda>s n. s = fmt_d n),
      RuneCountInString = length\<rparr>"

definition demo_sign :: "string \<Rightarrow> byte \<Rightarrow> byte \<Rightarrow> string" where
  \<comment> \<open>a signature the stand-in accepts for the cleaned message \<open>m\<close> and the address made of
      twenty bytes \<open>k\<close>, with the recovery byte \<open>v\<close>\<close>
  "demo_sign m k v =
     EncodeToString (demo_hash (signedMessage m) @ replicate 30 0 @ replicate 20 k @ replicate 12 0 @ [v])"

definition alice :: string where
  "alice = ''0x1111111111111111111111111111111111111111''"

definition bob :: string where
  "bob = ''0x2222222222222222222222222222222222222222''"

definition nonce_of :: "byte \<Rightarrow> string" where
  \<comment> \<open>the nonce \<open>GenerateNonce\<close> makes of 32 random bytes that are all \<open>b\<close>\<close>
  "nonce_of b = EncodeToString (replicate 32 b)"

definition demo_entropy :: "byte list" where
  "demo_entropy = replicate 32 0xaa @ replicate 32 0xbb @ replicate 32 0xcc"

definition fresh_world :: world where
  \<comment> \<open>a new database\<close>
  "fresh_world =
     \<lparr>users = [], contents = [], next_user_id = 1, next_content_id = 1, clock = 0,
      entropy = demo_entropy, db_faults = []\<rparr>"

definition demo_world :: world where
  \<comment> \<open>Alice and Bob are provisioned; record 1 is Alice's, record 2 is Bob's\<close>
  "demo_world =
     \<lparr>users =
        [\<lparr>uID = 1, uAddress = alice, uPublicKey = [], uNonce = nonce_of 0x01,
          uCreatedAt = 0, uUpdatedAt = 0\<rparr>,
         \<lparr>uID = 2, uAddress = bob, uPublicKey = [], uNonce = nonce_of 0x02,
          uCreatedAt = 0, uUpdatedAt = 0\<rparr>],
      contents =
        [\<lparr>cID = 1, cUserAddress = alice, cTitle = ''seed'', cEncryptedData = ''c1'',
          cEncryptedKey = ''k1'', cIV = ''iv1'', cNonce = nonce_of 0x03,
          cCreatedAt = 0, cUpdatedAt = 0\<rparr>,
         \<lparr>cID = 2, cUserAddress = bob, cTitle = ''note'', cEncryptedData = ''c2'',
          cEncryptedKey = ''k2'', cIV = ''iv2'', cNonce = nonce_of 0x04,
          cCreatedAt = 0, cUpdatedAt = 0\<rparr>],
      next_user_id = 3, next_content_id = 3, clock = 1,
      entropy = demo_entropy, db_faults = []\<rparr>"

definition login_hello :: LoginRequest where
  \<comment> \<open>Alice's signature over a message that is no challenge of the server\<close>
  "login_hello =
     \<lparr>lrAddress = alice, lrSignature = demo_sign ''hello'' 0x11 27, lrMessage = ''hello'',
      lrNonce = ''n''\<rparr>"

definition login_challenge :: LoginRequest where
  \<comment> \<open>Alice's signature over the login challenge for the nonce she has in \<open>demo_world\<close>\<close>
  "login_challenge =
     \<lparr>lrAddress = alice,
      lrSignature = demo_sign (GenerateMessageForSigning alice (nonce_of 0x01)) 0x11 27,
      lrMessage = GenerateMessageForSigning alice (nonce_of 0x01),
      lrNonce = nonce_of 0x01\<rparr>"

definition login_again :: LoginRequest where
  \<comment> \<open>Alice's signature over the login challenge for the nonce \<open>aa\<dots>\<close>\<close>
  "login_again =
     \<lparr>lrAddress = alice,
      lrSignature = demo_sign (GenerateMessageForSigning alice (nonce_of 0xaa)) 0x11 27,
      lrMessage = GenerateMessageForSigning alice (nonce_of 0xaa),
      lrNonce = nonce_of 0xaa\<rparr>"

definition rotated_world :: world where
  \<comment> \<open>\<open>demo_world\<close> after Alice has logged in twice: her nonce is \<open>bb\<dots>\<close> now\<close>
  "rotated_world =
     demo_world
       \<lparr>users :=
          [\<lparr>uID = 1, uAddress = alice, uPublicKey = [], uNonce = nonce_of 0xbb,
            uCreatedAt = 0, uUpdatedAt = 1\<rparr>,
           \<lparr>uID = 2, uAddress = bob, uPublicKey = [], uNonce = nonce_of 0x02,
            uCreatedAt = 0, uUpdatedAt = 0\<rparr>],
        entropy := replicate 32 0xcc\<rparr>"

definition create_req :: CreateContentRequest where
  "create_req = \<lparr>ccTitle = ''memo'', ccEncryptedKey = ''k3'', ccIV = ''iv3'', ccEncryptedData = ''c3''\<rparr>"

definition decrypt_req :: "nat \<Rightarrow> string \<Rightarrow> string \<Rightarrow> DecryptContentRequest" where
  \<comment> \<open>a decrypt request for a record and a nonce, signed by Alice over the message \<open>msg\<close>\<close>
  "decrypt_req contentID nonce msg =
     \<lparr>dcContentID = contentID, dcSignature = demo_sign msg 0x11 27,
      dcMessage = GenerateDecryptMessage contentID nonce, dcNonce = nonce\<rparr>"

definition decrypt_own :: DecryptContentRequest where
  \<comment> \<open>Alice's record with its stored nonce, the challenge signed\<close>
  "decrypt_own = decrypt_req 1 (nonce_of 0x03) (GenerateDecryptMessage 1 (nonce_of 0x03))"

definition decrypt_forged :: DecryptContentRequest where
  \<comment> \<open>the same with a signature over another message\<close>
  "decrypt_forged = decrypt_req 1 (nonce_of 0x03) ''hello''"

definition decrypt_stale :: DecryptContentRequest where
  \<comment> \<open>Alice's record with a nonce that is not the stored one, the challenge signed\<close>
  "decrypt_stale = decrypt_req 1 (nonce_of 0x09) (GenerateDecryptMessage 1 (nonce_of 0x09))"

definition decrypt_foreign :: DecryptContentRequest where
  \<comment> \<open>Bob's record with its stored nonce, the challenge signed by Alice\<close>
  "decrypt_foreign = decrypt_req 2 (nonce_of 0x04) (GenerateDecryptMessage 2 (nonce_of 0x04))"

section \<open>Theorems\<close>

subsection \<open>The verifier returns\<close>

lemma cleanMessage_returns: "\<exists>c. cleanMessage L m = Inr c"
  by (auto simp add: cleanMessage_def go_index_def go_slice_def Let_def)

lemma VerifyEthereumSignature_returns: "\<exists>b. VerifyEthereumSignature L m s a = Inr b"
proof -
  obtain c where c: "cleanMessage L m = Inr c"
    using cleanMessage_returns by blast
  show ?thesis
    by (auto simp add: VerifyEthereumSignature_def c go_index_def go_store_def Let_def
        split: option.split)
qed

lemma VerifyEthereumSignature_undecodable:
  "decodeSignature s = None \<Longrightarrow> VerifyEthereumSignature L m s a = Inr False"
proof -
  assume d: "decodeSignature s = None"
  obtain c where c: "cleanMessage L m = Inr c"
    using cleanMessage_returns by blast
  show ?thesis
    by (simp add: VerifyEthereumSignature_def c d)
qed

lemma VerifyEthereumSignature_wrong_length:
  "decodeSignature s = Some bs \<Longrightarrow> length bs \<noteq> 65 \<Longrightarrow> VerifyEthereumSignature L m s a = Inr False"
proof -
  assume d: "decodeSignature s = Some bs" and n: "length bs \<noteq> 65"
  obtain c where c: "cleanMessage L m = Inr c"
    using cleanMessage_returns by blast
  show ?thesis
    using n by (simp add: VerifyEthereumSignature_def c d)
qed

lemma VerifyEthereumSignature_no_key:
  assumes "decodeSignature s = Some bs" and "length bs = 65" and "cleanMessage L m = Inr c"
    and "SigToPub L (Keccak256Hash L (signedMessage c)) (bs[64 := adjustV (bs ! 64)]) = None"
  shows "VerifyEthereumSignature L m s a = Inr False"
  using assms by (simp add: VerifyEthereumSignature_def go_index_def go_store_def Let_def)

text \<open>
  C8. \<open>VerifyEthereumSignature\<close> returns a boolean on every input and never panics: the
  two index accesses and the slice of the message are in range whenever they are
  reached. It returns \<open>false\<close> when the signature string, with the prefix put in front
  when it lacks it, does not hex-decode, when it decodes to a length other than 65, and
  when the recovery of the public key fails. (The address derivation of go-ethereum has
  no error result.)
\<close>

theorem VerifyEthereumSignature_total:
  "(\<exists>b. VerifyEthereumSignature L m s a = Inr b)
   \<and> (decodeSignature s = None \<longrightarrow> VerifyEthereumSignature L m s a = Inr False)
   \<and> (\<forall>bs. decodeSignature s = Some bs \<and> length bs \<noteq> 65
         \<longrightarrow> VerifyEthereumSignature L m s a = Inr False)
   \<and> (\<forall>bs c. decodeSignature s = Some bs \<and> length bs = 65 \<and> cleanMessage L m = Inr c
           \<and> SigToPub L (Keccak256Hash L (signedMessage c)) (bs[64 := adjustV (bs ! 64)]) = None
         \<longrightarrow> VerifyEthereumSignature L m s a = Inr False)"
  using VerifyEthereumSignature_returns VerifyEthereumSignature_undecodable
    VerifyEthereumSignature_wrong_length VerifyEthereumSignature_no_key
  by blast

theorem VerifyEthereumSignature_total_witness:
  "decodeSignature ''0xzz'' = None
   \<and> VerifyEthereumSignature demo_libs ''hello'' ''0xzz'' alice = Inr False
   \<and> decodeSignature ''abcd'' = Some [0xab, 0xcd] \<and> length [0xab, 0xcd :: byte] \<noteq> 65
   \<and> VerifyEthereumSignature demo_libs ''hello'' ''abcd'' alice = Inr False
   \<and> decodeSignature (demo_sign ''bye'' 0x11 0) = Some ([30, 110] @ replicate 30 0 @ replicate 20 0x11 @ replicate 13 0)
   \<and> length ([30, 110] @ replicate 30 0 @ replicate 20 0x11 @ replicate 13 (0 :: byte)) = 65
   \<and> cleanMessage demo_libs '' \"hello\" '' = Inr ''hello''
   \<and> VerifyEthereumSignature demo_libs '' \"hello\" '' (demo_sign ''bye'' 0x11 0) alice = Inr False"
proof -
  let ?bs = "[30, 110] @ replicate 30 0 @ replicate 20 0x11 @ replicate 13 (0 :: byte)"
  have d1: "decodeSignature ''0xzz'' = None"
    by code_simp
  have d2: "decodeSignature ''abcd'' = Some [0xab, 0xcd]"
    by code_simp
  have n2: "length [0xab, 0xcd :: byte] \<noteq> 65"
    by simp
  have d3: "decodeSignature (demo_sign ''bye'' 0x11 0) = Some ?bs"
    by code_simp
  have n3: "length ?bs = 65"
    by simp
  have c3: "cleanMessage demo_libs '' \"hello\" '' = Inr ''hello''"
    by code_simp
  have k3: "SigToPub demo_libs (Keccak256Hash demo_libs (signedMessage ''hello''))
              (?bs[64 := adjustV (?bs ! 64)]) = None"
    by code_simp
  have r1: "VerifyEthereumSignature demo_libs ''hello'' ''0xzz'' alice = Inr False"
    using VerifyEthereumSignature_total [of demo_libs "''hello''" "''0xzz''" alice] d1 by blast
  have r2: "VerifyEthereumSignature demo_libs ''hello'' ''abcd'' alice = Inr False"
    using VerifyEthereumSignature_total [of demo_libs "''hello''" "''abcd''" alice] d2 n2 by blast
  have r3: "VerifyEthereumSignature demo_libs '' \"hello\" '' (demo_sign ''bye'' 0x11 0) alice = Inr False"
    using VerifyEthereumSignature_total
      [of demo_libs "'' \"hello\" ''" "demo_sign ''bye'' 0x11 0" alice] d3 n3 c3 k3
    by blast
  show ?thesis
    using d1 d2 n2 d3 n3 c3 r1 r2 r3 by blast
qed

subsection \<open>The recovery byte\<close>

lemma adjustV_small:
  assumes "2 \<le> v" and "v \<le> 26"
  shows "adjustV v = 0"
proof -
  have lo: "2 \<le> unat v" and hi: "unat v \<le> 26"
    using assms by (simp_all add: word_le_nat_alt)
  have "v \<noteq> 27" "v \<noteq> 28" "v \<noteq> 0" "v \<noteq> 1"
    using lo hi by auto
  moreover have "\<not> 35 \<le> v" "\<not> 27 \<le> v"
    using hi by (simp_all add: word_le_nat_alt)
  ultimately show ?thesis
    by (simp add: adjustV_def)
qed

lemma VerifyEthereumSignature_legacy_parity:
  assumes "decodeSignature s = Some b" and "length b = 65" and "b ! 64 = 27"
    and "decodeSignature s' = Some (b[64 := 0])"
  shows "VerifyEthereumSignature L m s a = VerifyEthereumSignature L m s' a"
proof -
  obtain c where c: "cleanMessage L m = Inr c"
    using cleanMessage_returns by blast
  show ?thesis
    using assms
    by (simp add: VerifyEthereumSignature_def c go_index_def go_store_def Let_def adjustV_def)
qed

text \<open>
  C7, as stated, fails: the chain-id-encoded value 35 is rewritten to \<open>35 - 35 - 2\<close>, which
  wraps around to 254 in \<open>uint8\<close>, and the value 29, which is in no convention, is
  rewritten to 2 and not to 0.
\<close>

theorem adjustV_counterexample: "adjustV 35 = 254 \<and> adjustV 29 = 2"
  by (simp add: adjustV_def)

text \<open>
  C7, amended. Before key recovery the 65th byte is rewritten so: the legacy values 27 and
  28 become 0 and 1, the canonical values 0 and 1 are kept, the chain-id-encoded values
  37 and 38 (chain id 1, which the code assumes) become 0 and 1, and every value from 2
  to 26 becomes 0 rather than being rejected. Consequently two signatures that decode to
  the same 65 bytes but for the last one, 27 in one and 0 in the other, get the same
  verdict for every message and identity.
\<close>

theorem adjustV_conventions:
  "adjustV 27 = 0 \<and> adjustV 28 = 1 \<and> adjustV 0 = 0 \<and> adjustV 1 = 1
   \<and> adjustV 37 = 0 \<and> adjustV 38 = 1
   \<and> (\<forall>v. 2 \<le> v \<and> v \<le> 26 \<longrightarrow> adjustV v = 0)
   \<and> (\<forall>L m a s s' b.
         decodeSignature s = Some b \<and> length b = 65 \<and> b ! 64 = 27
           \<and> decodeSignature s' = Some (b[64 := 0])
         \<longrightarrow> VerifyEthereumSignature L m s a = VerifyEthereumSignature L m s' a)"
proof -
  have "adjustV 27 = 0 \<and> adjustV 28 = 1 \<and> adjustV 0 = 0 \<and> adjustV 1 = 1
        \<and> adjustV 37 = 0 \<and> adjustV 38 = 1"
    by (simp add: adjustV_def)
  then show ?thesis
    using adjustV_small VerifyEthereumSignature_legacy_parity by blast
qed

theorem adjustV_conventions_witness:
  "(2 :: byte) \<le> 5 \<and> (5 :: byte) \<le> 26 \<and> adjustV 5 = 0
   \<and> decodeSignature (demo_sign ''hello'' 0x11 27)
       = Some ([32, 68] @ replicate 30 0 @ replicate 20 0x11 @ replicate 12 0 @ [27])
   \<and> decodeSignature (''0x'' @ demo_sign ''hello'' 0x11 0)
       = Some (([32, 68] @ replicate 30 0 @ replicate 20 0x11 @ replicate 12 0 @ [27])[64 := 0])
   \<and> VerifyEthereumSignature demo_libs ''hello'' (demo_sign ''hello'' 0x11 27) alice = Inr True
   \<and> VerifyEthereumSignature demo_libs ''hello'' (''0x'' @ demo_sign ''hello'' 0x11 0) alice = Inr True"
proof -
  let ?b = "[32, 68] @ replicate 30 0 @ replicate 20 0x11 @ replicate 12 0 @ [27 :: byte]"
  have v: "(2 :: byte) \<le> 5 \<and> (5 :: byte) \<le> 26"
    by simp
  have d: "decodeSignature (demo_sign ''hello'' 0x11 27) = Some ?b"
    by code_simp
  have d': "decodeSignature (''0x'' @ demo_sign ''hello'' 0x11 0) = Some (?b[64 := 0])"
    by code_simp
  have n: "length ?b = 65 \<and> ?b ! 64 = 27"
    by code_simp
  have r: "VerifyEthereumSignature demo_libs ''hello'' (demo_sign ''hello'' 0x11 27) alice = Inr True"
    by code_simp
  have small: "adjustV 5 = 0"
    using adjustV_conventions v by blast
  have "VerifyEthereumSignature demo_libs ''hello'' (demo_sign ''hello'' 0x11 27) alice
        = VerifyEthereumSignature demo_libs ''hello'' (''0x'' @ demo_sign ''hello'' 0x11 0) alice"
    using adjustV_conventions d d' n by blast
  with r have r': "VerifyEthereumSignature demo_libs ''hello'' (''0x'' @ demo_sign ''hello'' 0x11 0) alice = Inr True"
    by (simp only:)
  show ?thesis
    using v small d d' r r' by blast
qed

subsection \<open>The store and the random source\<close>

lemma db_call_healthy: "db_faults w = [] \<Longrightarrow> db_call w = (False, w)"
  by (simp add: db_call_def)

lemma db_call_frame:
  "db_call w = (f, w') \<Longrightarrow>
     users w' = users w \<and> contents w' = contents w \<and> entropy w' = entropy w
     \<and> next_user_id w' = next_user_id w \<and> next_content_id w' = next_content_id w
     \<and> clock w' = clock w \<and> (db_faults w = [] \<longrightarrow> db_faults w' = [] \<and> \<not> f)"
  by (auto simp add: db_call_def split: list.splits)

lemma GenerateNonce_Some:
  "GenerateNonce w = (Some n, w') \<Longrightarrow>
     n = EncodeToString (take 32 (entropy w)) \<and> 32 \<le> length (entropy w)
     \<and> w' = w\<lparr>entropy := drop 32 (entropy w)\<rparr>"
  by (auto simp add: GenerateNonce_def rand_Read_def split: if_splits)

lemma GenerateNonce_None:
  "GenerateNonce w = (None, w') \<Longrightarrow> w' = w \<and> length (entropy w) < 32"
  by (auto simp add: GenerateNonce_def rand_Read_def split: if_splits)

lemma GenerateNonce_enough:
  "32 \<le> length (entropy w) \<Longrightarrow>
     GenerateNonce w = (Some (EncodeToString (take 32 (entropy w))), w\<lparr>entropy := drop 32 (entropy w)\<rparr>)"
  by (simp add: GenerateNonce_def rand_Read_def)

lemma find_map_update:
  "find P xs = Some x \<Longrightarrow> P y \<Longrightarrow> find P (map (\<lambda>u. if f u = f x then y else u) xs) = Some y"
  by (induction xs) (auto split: if_splits)

lemma find_Some_set: "find P xs = Some x \<Longrightarrow> x \<in> set xs \<and> P x"
  by (induction xs) (auto split: if_splits)

lemma find_append_new: "find P xs = None \<Longrightarrow> P y \<Longrightarrow> find P (xs @ [y]) = Some y"
  by (induction xs) (auto split: if_splits)

lemma first_user_Inr:
  "first_user a w = (Inr u, w') \<Longrightarrow>
     find (\<lambda>u. uAddress u = a) (users w') = Some u \<and> users w' = users w
     \<and> entropy w' = entropy w \<and> (db_faults w = [] \<longrightarrow> db_faults w' = [])"
  by (auto simp add: first_user_def split: prod.splits bool.splits option.splits if_splits dest: db_call_frame)

lemma first_user_NotFound:
  "first_user a w = (Inl ErrRecordNotFound, w') \<Longrightarrow>
     find (\<lambda>u. uAddress u = a) (users w') = None \<and> users w' = users w
     \<and> entropy w' = entropy w \<and> (db_faults w = [] \<longrightarrow> db_faults w' = [])"
  by (auto simp add: first_user_def split: prod.splits bool.splits option.splits if_splits dest: db_call_frame)

lemma create_user_Inr:
  "create_user x w = (Inr u, w') \<Longrightarrow>
     users w' = users w @ [u] \<and> uAddress u = uAddress x \<and> uNonce u = uNonce x
     \<and> entropy w' = entropy w \<and> (db_faults w = [] \<longrightarrow> db_faults w' = [])"
  by (auto simp add: create_user_def Let_def split: prod.splits bool.splits option.splits if_splits dest: db_call_frame)

lemma save_user_healthy:
  "db_faults w = [] \<Longrightarrow> x \<in> set (users w) \<Longrightarrow> uID y = uID x \<Longrightarrow>
     users (snd (save_user y w)) = map (\<lambda>u. if uID u = uID x then y\<lparr>uUpdatedAt := clock w\<rparr> else u) (users w)"
  by (auto simp add: save_user_def db_call_healthy Let_def)

lemma LoginHandler_rotate_OK:
  assumes "LoginHandler_rotate req user w = ((StatusOK, b), w')"
  shows "\<exists>n. b = LoginResponse True (lrAddress req @ '':'' @ n) (lrAddress req)
           \<and> n = EncodeToString (take 32 (entropy w)) \<and> 32 \<le> length (entropy w)
           \<and> (db_faults w = [] \<longrightarrow> find (\<lambda>u. uAddress u = lrAddress req) (users w) = Some user
                \<longrightarrow> (\<exists>u. find (\<lambda>u. uAddress u = lrAddress req) (users w') = Some u \<and> uNonce u = n))"
proof (cases "GenerateNonce w")
  case (Pair r w1)
  show ?thesis
  proof (cases r)
    case None
    with Pair assms show ?thesis by (simp add: LoginHandler_rotate_def)
  next
    case (Some n)
    with Pair have g: "GenerateNonce w = (Some n, w1)" by simp
    note G = GenerateNonce_Some [OF g]
    let ?y = "user\<lparr>uNonce := n\<rparr>"
    from assms g have b: "b = LoginResponse True (lrAddress req @ '':'' @ n) (lrAddress req)"
      and w': "w' = snd (save_user ?y w1)"
      by (auto simp add: LoginHandler_rotate_def split: prod.splits)
    have "\<exists>u. find (\<lambda>u. uAddress u = lrAddress req) (users w') = Some u \<and> uNonce u = n"
      if h: "db_faults w = []" and f: "find (\<lambda>u. uAddress u = lrAddress req) (users w) = Some user"
    proof -
      from G h have h1: "db_faults w1 = []" and u1: "users w1 = users w" by simp_all
      from find_Some_set [OF f] have mem: "user \<in> set (users w1)" and addr: "uAddress user = lrAddress req"
        using u1 by simp_all
      have "users w' = map (\<lambda>u. if uID u = uID user then ?y\<lparr>uUpdatedAt := clock w1\<rparr> else u) (users w1)"
        unfolding w' using save_user_healthy [OF h1 mem, of ?y] by simp
      then have "find (\<lambda>u. uAddress u = lrAddress req) (users w') = Some (?y\<lparr>uUpdatedAt := clock w1\<rparr>)"
        using find_map_update [of "\<lambda>u. uAddress u = lrAddress req" "users w" user "?y\<lparr>uUpdatedAt := clock w1\<rparr>" uID] f addr u1
        by simp
      then show ?thesis by simp
    qed
    with b G show ?thesis by blast
  qed
qed

subsection \<open>Login\<close>

lemma LoginHandler_OK_cases:
  assumes "LoginHandler L body w = ((StatusOK, b), w')"
  shows "\<exists>req. body = Some req \<and> ShouldBindJSON_Login body = Some req
           \<and> VerifyEthereumSignature L (lrMessage req) (lrSignature req) (lrAddress req) = Inr True
           \<and> ((\<exists>user w1. first_user (lrAddress req) w = (Inr user, w1)
                   \<and> LoginHandler_rotate req user w1 = ((StatusOK, b), w'))
              \<or> (\<exists>w1 nonce w2 user w3.
                    first_user (lrAddress req) w = (Inl ErrRecordNotFound, w1)
                    \<and> GenerateNonce w1 = (Some nonce, w2)
                    \<and> create_user \<lparr>uID = 0, uAddress = lrAddress req, uPublicKey = [],
                                     uNonce = nonce, uCreatedAt = 0, uUpdatedAt = 0\<rparr> w2 = (Inr user, w3)
                    \<and> LoginHandler_rotate req user w3 = ((StatusOK, b), w')))"
  using assms
  by (auto simp add: LoginHandler_def ShouldBindJSON_Login_def
      split: option.splits sum.splits prod.splits db_error.splits if_splits)

lemma LoginHandler_OK_stored:
  assumes "LoginHandler L body w = ((StatusOK, b), w')"
  shows "\<exists>req newNonce bytes. body = Some req
           \<and> b = LoginResponse True (lrAddress req @ '':'' @ newNonce) (lrAddress req)
           \<and> newNonce = EncodeToString bytes \<and> length bytes = 32
           \<and> (db_faults w = [] \<longrightarrow>
                (\<exists>u. find (\<lambda>u. uAddress u = lrAddress req) (users w') = Some u \<and> uNonce u = newNonce))"
proof -
  from LoginHandler_OK_cases [OF assms] obtain req where
    body: "body = Some req" and
    cases: "(\<exists>user w1. first_user (lrAddress req) w = (Inr user, w1)
                   \<and> LoginHandler_rotate req user w1 = ((StatusOK, b), w'))
              \<or> (\<exists>w1 nonce w2 user w3.
                    first_user (lrAddress req) w = (Inl ErrRecordNotFound, w1)
                    \<and> GenerateNonce w1 = (Some nonce, w2)
                    \<and> create_user \<lparr>uID = 0, uAddress = lrAddress req, uPublicKey = [],
                                     uNonce = nonce, uCreatedAt = 0, uUpdatedAt = 0\<rparr> w2 = (Inr user, w3)
                    \<and> LoginHandler_rotate req user w3 = ((StatusOK, b), w'))"
    by blast
  let ?P = "\<lambda>u. uAddress u = lrAddress req"
  have "\<exists>user w3. LoginHandler_rotate req user w3 = ((StatusOK, b), w')
          \<and> (db_faults w = [] \<longrightarrow> db_faults w3 = [] \<and> find ?P (users w3) = Some user)"
  proof -
    from cases consider
      (found) user w1 where "first_user (lrAddress req) w = (Inr user, w1)"
        "LoginHandler_rotate req user w1 = ((StatusOK, b), w')"
    | (new) w1 nonce w2 user w3 where "first_user (lrAddress req) w = (Inl ErrRecordNotFound, w1)"
        "GenerateNonce w1 = (Some nonce, w2)"
        "create_user \<lparr>uID = 0, uAddress = lrAddress req, uPublicKey = [],
                       uNonce = nonce, uCreatedAt = 0, uUpdatedAt = 0\<rparr> w2 = (Inr user, w3)"
        "LoginHandler_rotate req user w3 = ((StatusOK, b), w')"
      by blast
    then show ?thesis
    proof cases
      case found
      from first_user_Inr [OF found(1)] found(2) show ?thesis by blast
    next
      case new
      note F = first_user_NotFound [OF new(1)]
      note G = GenerateNonce_Some [OF new(2)]
      note C = create_user_Inr [OF new(3)]
      from F G have none: "find ?P (users w2) = None" by auto
      from C have addr: "?P user" by simp
      from find_append_new [OF none addr] C have "find ?P (users w3) = Some user" by auto
      moreover have "db_faults w = [] \<longrightarrow> db_faults w3 = []"
        using F G C by auto
      ultimately show ?thesis using new(4) by blast
    qed
  qed
  then obtain user w3 where
    rot: "LoginHandler_rotate req user w3 = ((StatusOK, b), w')" and
    pre: "db_faults w = [] \<longrightarrow> db_faults w3 = [] \<and> find ?P (users w3) = Some user"
    by blast
  from LoginHandler_rotate_OK [OF rot] pre
  have "b = LoginResponse True (lrAddress req @ '':'' @ EncodeToString (take 32 (entropy w3))) (lrAddress req)
        \<and> length (take 32 (entropy w3)) = 32
        \<and> (db_faults w = [] \<longrightarrow>
                (\<exists>u. find ?P (users w') = Some u \<and> uNonce u = EncodeToString (take 32 (entropy w3))))"
    by auto
  with body show ?thesis by blast
qed

lemma save_user_entropy: "entropy (snd (save_user y w)) = entropy w"
  by (auto simp add: save_user_def db_call_def Let_def split: list.splits bool.splits)

lemma LoginHandler_rotate_drawn:
  assumes "LoginHandler_rotate req user w = ((StatusOK, b), w')"
  shows "b = LoginResponse True (lrAddress req @ '':'' @ EncodeToString (take 32 (entropy w)))
               (lrAddress req)
         \<and> 32 \<le> length (entropy w) \<and> entropy w' = drop 32 (entropy w)"
proof (cases "GenerateNonce w")
  case (Pair r w1)
  show ?thesis
  proof (cases r)
    case None
    with Pair assms show ?thesis
      by (simp add: LoginHandler_rotate_def)
  next
    case (Some n)
    with Pair have g: "GenerateNonce w = (Some n, w1)"
      by simp
    note G = GenerateNonce_Some [OF g]
    from assms g have b: "b = LoginResponse True (lrAddress req @ '':'' @ n) (lrAddress req)"
      and w': "w' = snd (save_user (user\<lparr>uNonce := n\<rparr>) w1)"
      by (auto simp add: LoginHandler_rotate_def split: prod.splits)
    from w' G have "entropy w' = drop 32 (entropy w)"
      by (simp add: save_user_entropy)
    with b G show ?thesis
      by simp
  qed
qed

lemma LoginHandler_OK_drawn:
  assumes "LoginHandler L body w = ((StatusOK, b), w')"
  shows "\<exists>req k. body = Some req
           \<and> k = (if find (\<lambda>u. uAddress u = lrAddress req) (users w) = None then 32 else 0)
           \<and> k + 32 \<le> length (entropy w)
           \<and> b = LoginResponse True
                   (lrAddress req @ '':'' @ EncodeToString (take 32 (drop k (entropy w))))
                   (lrAddress req)
           \<and> entropy w' = drop (k + 32) (entropy w)"
proof -
  from LoginHandler_OK_cases [OF assms] obtain req where
    body: "body = Some req" and
    cases: "(\<exists>user w1. first_user (lrAddress req) w = (Inr user, w1)
                   \<and> LoginHandler_rotate req user w1 = ((StatusOK, b), w'))
              \<or> (\<exists>w1 nonce w2 user w3.
                    first_user (lrAddress req) w = (Inl ErrRecordNotFound, w1)
                    \<and> GenerateNonce w1 = (Some nonce, w2)
                    \<and> create_user \<lparr>uID = 0, uAddress = lrAddress req, uPublicKey = [],
                                     uNonce = nonce, uCreatedAt = 0, uUpdatedAt = 0\<rparr> w2 = (Inr user, w3)
                    \<and> LoginHandler_rotate req user w3 = ((StatusOK, b), w'))"
    by blast
  let ?P = "\<lambda>u. uAddress u = lrAddress req"
  let ?k = "if find ?P (users w) = None then 32 else (0::nat)"
  from cases have "?k + 32 \<le> length (entropy w)
           \<and> b = LoginResponse True
                   (lrAddress req @ '':'' @ EncodeToString (take 32 (drop ?k (entropy w))))
                   (lrAddress req)
           \<and> entropy w' = drop (?k + 32) (entropy w)"
  proof
    assume "\<exists>user w1. first_user (lrAddress req) w = (Inr user, w1)
                   \<and> LoginHandler_rotate req user w1 = ((StatusOK, b), w')"
    then obtain user w1 where f: "first_user (lrAddress req) w = (Inr user, w1)"
      and r: "LoginHandler_rotate req user w1 = ((StatusOK, b), w')"
      by blast
    from first_user_Inr [OF f] have found: "find ?P (users w) = Some user" and e: "entropy w1 = entropy w"
      by auto
    from LoginHandler_rotate_drawn [OF r] e found show ?thesis
      by simp
  next
    assume "\<exists>w1 nonce w2 user w3.
                    first_user (lrAddress req) w = (Inl ErrRecordNotFound, w1)
                    \<and> GenerateNonce w1 = (Some nonce, w2)
                    \<and> create_user \<lparr>uID = 0, uAddress = lrAddress req, uPublicKey = [],
                                     uNonce = nonce, uCreatedAt = 0, uUpdatedAt = 0\<rparr> w2 = (Inr user, w3)
                    \<and> LoginHandler_rotate req user w3 = ((StatusOK, b), w')"
    then obtain w1 nonce w2 user w3 where f: "first_user (lrAddress req) w = (Inl ErrRecordNotFound, w1)"
      and g: "GenerateNonce w1 = (Some nonce, w2)"
      and c: "create_user \<lparr>uID = 0, uAddress = lrAddress req, uPublicKey = [],
                                     uNonce = nonce, uCreatedAt = 0, uUpdatedAt = 0\<rparr> w2 = (Inr user, w3)"
      and r: "LoginHandler_rotate req user w3 = ((StatusOK, b), w')"
      by blast
    from first_user_NotFound [OF f] have none: "find ?P (users w) = None" and e1: "entropy w1 = entropy w"
      by auto
    from GenerateNonce_Some [OF g] e1 have e2: "entropy w2 = drop 32 (entropy w)"
      by simp
    from create_user_Inr [OF c] e2 have e3: "entropy w3 = drop 32 (entropy w)"
      by simp
    from LoginHandler_rotate_drawn [OF r] e3 none show ?thesis
      by auto
  qed
  with body show ?thesis
    by blast
qed

text \<open>
  C10. Whenever \<open>LoginHandler\<close> answers with status 200, the token in the response is the
  request's address, a colon, and the nonce drawn in this very call: the hex text of the
  32 bytes the random source delivers next, after the 32 bytes of the provisioning nonce
  when the identity was unknown. The random source is advanced past them, and when the
  store is healthy that nonce is the one now stored for the address. The token is
  therefore the concatenation of two values anyone who knows the address and the stored
  nonce can put together: nothing else enters it.
\<close>

theorem LoginHandler_token:
  assumes "LoginHandler L body w = ((StatusOK, b), w')"
  shows "\<exists>req newNonce k. body = Some req
           \<and> b = LoginResponse True (lrAddress req @ '':'' @ newNonce) (lrAddress req)
           \<and> k = (if find (\<lambda>u. uAddress u = lrAddress req) (users w) = None then 32 else 0)
           \<and> k + 32 \<le> length (entropy w)
           \<and> newNonce = EncodeToString (take 32 (drop k (entropy w)))
           \<and> length (take 32 (drop k (entropy w))) = 32
           \<and> entropy w' = drop (k + 32) (entropy w)
           \<and> (db_faults w = [] \<longrightarrow>
                (\<exists>u. find (\<lambda>u. uAddress u = lrAddress req) (users w') = Some u
                      \<and> uNonce u = newNonce
                      \<and> b = LoginResponse True (uAddress u @ '':'' @ uNonce u) (uAddress u)))"
proof -
  from LoginHandler_OK_drawn [OF assms] obtain req k where
    d: "body = Some req"
       "k = (if find (\<lambda>u. uAddress u = lrAddress req) (users w) = None then 32 else 0)"
       "k + 32 \<le> length (entropy w)"
       "b = LoginResponse True
              (lrAddress req @ '':'' @ EncodeToString (take 32 (drop k (entropy w)))) (lrAddress req)"
       "entropy w' = drop (k + 32) (entropy w)"
    by blast
  let ?n = "EncodeToString (take 32 (drop k (entropy w)))"
  have len: "length (take 32 (drop k (entropy w))) = 32"
    using d(3) by simp
  have "\<exists>u. find (\<lambda>u. uAddress u = lrAddress req) (users w') = Some u
              \<and> uNonce u = ?n
              \<and> b = LoginResponse True (uAddress u @ '':'' @ uNonce u) (uAddress u)"
    if "db_faults w = []"
  proof -
    from LoginHandler_OK_stored [OF assms] that d(1) obtain newNonce u where
      s: "b = LoginResponse True (lrAddress req @ '':'' @ newNonce) (lrAddress req)"
         "find (\<lambda>u. uAddress u = lrAddress req) (users w') = Some u" "uNonce u = newNonce"
      by auto
    from s(1) d(4) have "newNonce = ?n"
      by simp
    moreover from find_Some_set [OF s(2)] have "uAddress u = lrAddress req"
      by simp
    ultimately show ?thesis
      using s d(4) by simp
  qed
  with d len show ?thesis
    by blast
qed

theorem LoginHandler_token_witness:
  "LoginHandler demo_libs (Some login_challenge) demo_world
     = ((StatusOK, LoginResponse True (alice @ '':'' @ nonce_of 0xaa) alice),
        snd (LoginHandler demo_libs (Some login_challenge) demo_world))
   \<and> db_faults demo_world = []
   \<and> find (\<lambda>u. uAddress u = alice) (users demo_world) \<noteq> None
   \<and> nonce_of 0xaa = EncodeToString (take 32 (drop 0 (entropy demo_world)))
   \<and> entropy (snd (LoginHandler demo_libs (Some login_challenge) demo_world))
       = drop 32 (entropy demo_world)
   \<and> (\<exists>u. find (\<lambda>u. uAddress u = alice)
              (users (snd (LoginHandler demo_libs (Some login_challenge) demo_world))) = Some u
         \<and> uNonce u = nonce_of 0xaa)
   \<and> LoginHandler demo_libs (Some login_hello) fresh_world
       = ((StatusOK, LoginResponse True (alice @ '':'' @ nonce_of 0xbb) alice),
          snd (LoginHandler demo_libs (Some login_hello) fresh_world))
   \<and> find (\<lambda>u. uAddress u = alice) (users fresh_world) = None
   \<and> nonce_of 0xbb = EncodeToString (take 32 (drop 32 (entropy fresh_world)))
   \<and> entropy (snd (LoginHandler demo_libs (Some login_hello) fresh_world))
       = drop 64 (entropy fresh_world)"
proof -
  let ?X = "LoginHandler demo_libs (Some login_challenge) demo_world"
  let ?Y = "LoginHandler demo_libs (Some login_hello) fresh_world"
  have "fst ?X = (StatusOK, LoginResponse True (alice @ '':'' @ nonce_of 0xaa) alice)"
    by code_simp
  then have runX: "?X = ((StatusOK, LoginResponse True (alice @ '':'' @ nonce_of 0xaa) alice), snd ?X)"
    by (metis prod.collapse)
  have "fst ?Y = (StatusOK, LoginResponse True (alice @ '':'' @ nonce_of 0xbb) alice)"
    by code_simp
  then have runY: "?Y = ((StatusOK, LoginResponse True (alice @ '':'' @ nonce_of 0xbb) alice), snd ?Y)"
    by (metis prod.collapse)
  have healthy: "db_faults demo_world = []"
    by (simp add: demo_world_def)
  have known: "find (\<lambda>u. uAddress u = alice) (users demo_world) \<noteq> None"
    by (simp add: demo_world_def)
  have unknown: "find (\<lambda>u. uAddress u = alice) (users fresh_world) = None"
    by (simp add: fresh_world_def)
  have aX: "lrAddress login_challenge = alice" and aY: "lrAddress login_hello = alice"
    by (simp_all add: login_challenge_def login_hello_def)
  from LoginHandler_token [OF runX] obtain req n k where
    x: "Some login_challenge = Some req"
       "LoginResponse True (alice @ '':'' @ nonce_of 0xaa) alice
          = LoginResponse True (lrAddress req @ '':'' @ n) (lrAddress req)"
       "k = (if find (\<lambda>u. uAddress u = lrAddress req) (users demo_world) = None then 32 else 0)"
       "n = EncodeToString (take 32 (drop k (entropy demo_world)))"
       "entropy (snd ?X) = drop (k + 32) (entropy demo_world)"
       "db_faults demo_world = [] \<longrightarrow>
          (\<exists>u. find (\<lambda>u. uAddress u = lrAddress req) (users (snd ?X)) = Some u \<and> uNonce u = n)"
    by blast
  from x(1) aX have rx: "lrAddress req = alice"
    by simp
  from x(2) rx have nx: "n = nonce_of 0xaa"
    by simp
  from x(3) rx known have kx: "k = 0"
    by simp
  from LoginHandler_token [OF runY] obtain req' n' k' where
    y: "Some login_hello = Some req'"
       "LoginResponse True (alice @ '':'' @ nonce_of 0xbb) alice
          = LoginResponse True (lrAddress req' @ '':'' @ n') (lrAddress req')"
       "k' = (if find (\<lambda>u. uAddress u = lrAddress req') (users fresh_world) = None then 32 else 0)"
       "n' = EncodeToString (take 32 (drop k' (entropy fresh_world)))"
       "entropy (snd ?Y) = drop (k' + 32) (entropy fresh_world)"
    by blast
  from y(1) aY have ry: "lrAddress req' = alice"
    by simp
  from y(2) ry have ny: "n' = nonce_of 0xbb"
    by simp
  from y(3) ry unknown have ky: "k' = 32"
    by simp
  have 1: "nonce_of 0xaa = EncodeToString (take 32 (drop 0 (entropy demo_world)))"
    using x(4) nx kx by simp
  have 2: "entropy (snd ?X) = drop 32 (entropy demo_world)"
    using x(5) kx by simp
  have 3: "\<exists>u. find (\<lambda>u. uAddress u = alice) (users (snd ?X)) = Some u \<and> uNonce u = nonce_of 0xaa"
    using x(6) healthy rx nx by simp
  have 4: "nonce_of 0xbb = EncodeToString (take 32 (drop 32 (entropy fresh_world)))"
    using y(4) ny ky by simp
  have 5: "entropy (snd ?Y) = drop 64 (entropy fresh_world)"
    using y(5) ky by simp
  from runX healthy known 1 2 3 runY unknown 4 5 show ?thesis
    by blast
qed

lemma first_user_healthy:
  "db_faults w = [] \<Longrightarrow>
     first_user a w = (case find (\<lambda>u. uAddress u = a) (users w) of
                         None \<Rightarrow> (Inl ErrRecordNotFound, w) | Some u \<Rightarrow> (Inr u, w))"
  by (simp add: first_user_def db_call_healthy)

lemma create_user_healthy:
  assumes "db_faults w = []" and "find (\<lambda>u. uAddress u = uAddress x) (users w) = None"
  shows "\<exists>row. create_user x w
           = (Inr row, w\<lparr>users := users w @ [row], next_user_id := next_user_id w + 1\<rparr>)"
proof -
  from assms(2) have "uAddress x \<notin> set (map uAddress (users w))"
    by (auto simp add: find_None_iff)
  then show ?thesis
    using assms(1) by (simp add: create_user_def db_call_healthy Let_def)
qed

lemma LoginHandler_rotate_enough:
  assumes "32 \<le> length (entropy w)"
  shows "fst (LoginHandler_rotate req user w)
           = (StatusOK, LoginResponse True (lrAddress req @ '':'' @ EncodeToString (take 32 (entropy w)))
                          (lrAddress req))"
  by (simp add: LoginHandler_rotate_def GenerateNonce_enough [OF assms] split: prod.splits)

lemma LoginHandler_unknown_identity:
  assumes bind: "ShouldBindJSON_Login body = Some req"
    and sig: "VerifyEthereumSignature L (lrMessage req) (lrSignature req) (lrAddress req) = Inr True"
    and unknown: "find (\<lambda>u. uAddress u = lrAddress req) (users w) = None"
    and healthy: "db_faults w = []"
    and random: "64 \<le> length (entropy w)"
  shows "\<exists>token. fst (LoginHandler L body w) = (StatusOK, LoginResponse True token (lrAddress req))"
proof -
  let ?w2 = "w\<lparr>entropy := drop 32 (entropy w)\<rparr>"
  let ?x = "\<lparr>uID = 0, uAddress = lrAddress req, uPublicKey = [],
             uNonce = EncodeToString (take 32 (entropy w)), uCreatedAt = 0, uUpdatedAt = 0\<rparr>"
  have f: "first_user (lrAddress req) w = (Inl ErrRecordNotFound, w)"
    using first_user_healthy [OF healthy] unknown by simp
  have g: "GenerateNonce w = (Some (EncodeToString (take 32 (entropy w))), ?w2)"
    using GenerateNonce_enough random by simp
  have "db_faults ?w2 = []" "find (\<lambda>u. uAddress u = uAddress ?x) (users ?w2) = None"
    using healthy unknown by simp_all
  from create_user_healthy [OF this] obtain row where
    c: "create_user ?x ?w2
          = (Inr row, ?w2\<lparr>users := users ?w2 @ [row], next_user_id := next_user_id ?w2 + 1\<rparr>)"
    by blast
  let ?w3 = "?w2\<lparr>users := users ?w2 @ [row], next_user_id := next_user_id ?w2 + 1\<rparr>"
  have "32 \<le> length (entropy ?w3)"
    using random by simp
  from LoginHandler_rotate_enough [OF this, of req row]
  have "\<exists>token. fst (LoginHandler_rotate req row ?w3) = (StatusOK, LoginResponse True token (lrAddress req))"
    by blast
  moreover have "LoginHandler L body w = LoginHandler_rotate req row ?w3"
    using bind sig f g c by (simp add: LoginHandler_def)
  ultimately show ?thesis
    by simp
qed

lemma ShouldBindJSON_Login_Some: "ShouldBindJSON_Login body = Some req \<Longrightarrow> body = Some req"
  by (auto simp add: ShouldBindJSON_Login_def split: option.splits if_splits)

text \<open>
  C1, as stated, fails twice. With no identity in the store, a login whose signature
  verifies is answered with status 200 and a token: the identity is created and the same
  call logs in. And with Alice provisioned, her signature over \<open>hello\<close>, which is not the
  challenge for her stored nonce, logs her in as well.
\<close>

theorem LoginHandler_challenge_counterexample:
  "find (\<lambda>u. uAddress u = alice) (users fresh_world) = None
   \<and> fst (LoginHandler demo_libs (Some login_hello) fresh_world)
       = (StatusOK, LoginResponse True (alice @ '':'' @ nonce_of 0xbb) alice)
   \<and> map_option uNonce (find (\<lambda>u. uAddress u = alice) (users demo_world)) = Some (nonce_of 0x01)
   \<and> lrMessage login_hello \<noteq> GenerateMessageForSigning alice (nonce_of 0x01)
   \<and> fst (LoginHandler demo_libs (Some login_hello) demo_world)
       = (StatusOK, LoginResponse True (alice @ '':'' @ nonce_of 0xaa) alice)"
  by code_simp

text \<open>
  C1, amended. \<open>LoginHandler\<close> answers with status 200 only if the verifier accepts the
  submitted message, signature and address. When the identity is unknown, the signature
  verifies, the store is healthy and the random source delivers two nonces, the call
  provisions the identity and logs in: the answer is status 200 with a token, and the
  identity is in the store afterwards.
\<close>

theorem LoginHandler_needs_signature:
  "(LoginHandler L body w = ((StatusOK, b), w') \<longrightarrow>
      (\<exists>req. body = Some req
         \<and> VerifyEthereumSignature L (lrMessage req) (lrSignature req) (lrAddress req) = Inr True))
   \<and> (ShouldBindJSON_Login body = Some req
        \<and> VerifyEthereumSignature L (lrMessage req) (lrSignature req) (lrAddress req) = Inr True
        \<and> find (\<lambda>u. uAddress u = lrAddress req) (users w) = None
        \<and> db_faults w = [] \<and> 64 \<le> length (entropy w) \<longrightarrow>
      (\<exists>token. fst (LoginHandler L body w) = (StatusOK, LoginResponse True token (lrAddress req)))
      \<and> (\<exists>u. find (\<lambda>u. uAddress u = lrAddress req) (users (snd (LoginHandler L body w))) = Some u))"
proof (intro conjI impI)
  assume "LoginHandler L body w = ((StatusOK, b), w')"
  from LoginHandler_OK_cases [OF this]
  show "\<exists>req. body = Some req
          \<and> VerifyEthereumSignature L (lrMessage req) (lrSignature req) (lrAddress req) = Inr True"
    by blast
next
  assume h: "ShouldBindJSON_Login body = Some req
        \<and> VerifyEthereumSignature L (lrMessage req) (lrSignature req) (lrAddress req) = Inr True
        \<and> find (\<lambda>u. uAddress u = lrAddress req) (users w) = None
        \<and> db_faults w = [] \<and> 64 \<le> length (entropy w)"
  then have ok: "\<exists>token. fst (LoginHandler L body w) = (StatusOK, LoginResponse True token (lrAddress req))"
    using LoginHandler_unknown_identity by blast
  then show "\<exists>token. fst (LoginHandler L body w) = (StatusOK, LoginResponse True token (lrAddress req))" .
  from ok obtain token where
    "LoginHandler L body w
       = ((StatusOK, LoginResponse True token (lrAddress req)), snd (LoginHandler L body w))"
    by (metis prod.collapse)
  from LoginHandler_OK_stored [OF this] h ShouldBindJSON_Login_Some [of body req]
  show "\<exists>u. find (\<lambda>u. uAddress u = lrAddress req) (users (snd (LoginHandler L body w))) = Some u"
    by auto
qed

theorem LoginHandler_needs_signature_witness:
  "LoginHandler demo_libs (Some login_hello) fresh_world
     = ((StatusOK, LoginResponse True (alice @ '':'' @ nonce_of 0xbb) alice),
        snd (LoginHandler demo_libs (Some login_hello) fresh_world))
   \<and> ShouldBindJSON_Login (Some login_hello) = Some login_hello
   \<and> VerifyEthereumSignature demo_libs (lrMessage login_hello) (lrSignature login_hello)
        (lrAddress login_hello) = Inr True
   \<and> find (\<lambda>u. uAddress u = lrAddress login_hello) (users fresh_world) = None
   \<and> db_faults fresh_world = [] \<and> 64 \<le> length (entropy fresh_world)
   \<and> (\<exists>u. find (\<lambda>u. uAddress u = lrAddress login_hello)
              (users (snd (LoginHandler demo_libs (Some login_hello) fresh_world))) = Some u)"
proof -
  let ?X = "LoginHandler demo_libs (Some login_hello) fresh_world"
  have "fst ?X = (StatusOK, LoginResponse True (alice @ '':'' @ nonce_of 0xbb) alice)"
    by code_simp
  then have run: "?X = ((StatusOK, LoginResponse True (alice @ '':'' @ nonce_of 0xbb) alice), snd ?X)"
    by (metis prod.collapse)
  have bind: "ShouldBindJSON_Login (Some login_hello) = Some login_hello"
    by code_simp
  have sig: "VerifyEthereumSignature demo_libs (lrMessage login_hello) (lrSignature login_hello)
               (lrAddress login_hello) = Inr True"
    by code_simp
  have unknown: "find (\<lambda>u. uAddress u = lrAddress login_hello) (users fresh_world) = None"
    by (simp add: fresh_world_def)
  have healthy: "db_faults fresh_world = []" and random: "64 \<le> length (entropy fresh_world)"
    by (simp_all add: fresh_world_def demo_entropy_def)
  from LoginHandler_needs_signature
         [of demo_libs "Some login_hello" fresh_world _ _ login_hello]
       bind sig unknown healthy random
  have "\<exists>u. find (\<lambda>u. uAddress u = lrAddress login_hello) (users (snd ?X)) = Some u"
    by blast
  with run bind sig unknown healthy random show ?thesis
    by blast
qed

text \<open>
  C2, the login half, evaluated. Alice logs in with the challenge for her stored nonce;
  her nonce is rotated. The same request, sent again, is answered with status 200 and
  another token: the handler never compares the message or the request's nonce with
  the stored nonce.
\<close>

theorem LoginHandler_replay_accepted:
  "map_option uNonce (find (\<lambda>u. uAddress u = alice) (users demo_world)) = Some (nonce_of 0x01)
   \<and> lrMessage login_challenge = GenerateMessageForSigning alice (nonce_of 0x01)
   \<and> fst (LoginHandler demo_libs (Some login_challenge) demo_world)
       = (StatusOK, LoginResponse True (alice @ '':'' @ nonce_of 0xaa) alice)
   \<and> map_option uNonce
        (find (\<lambda>u. uAddress u = alice)
           (users (snd (LoginHandler demo_libs (Some login_challenge) demo_world))))
       = Some (nonce_of 0xaa)
   \<and> fst (LoginHandler demo_libs (Some login_challenge)
             (snd (LoginHandler demo_libs (Some login_challenge) demo_world)))
       = (StatusOK, LoginResponse True (alice @ '':'' @ nonce_of 0xbb) alice)"
  by code_simp

subsection \<open>The nonce query\<close>

lemma GetNonceHandler_frame:
  "users (snd (GetNonceHandler a w)) = users w \<and> contents (snd (GetNonceHandler a w)) = contents w"
  by (auto simp add: GetNonceHandler_def first_user_def db_call_def GenerateNonce_def rand_Read_def
      split: prod.splits sum.splits db_error.splits option.splits list.splits bool.splits if_splits)

lemma GetNonceHandler_known:
  assumes "a \<noteq> []" and "db_faults w = []" and "find (\<lambda>u. uAddress u = a) (users w) = Some u"
  shows "GetNonceHandler a w = ((StatusOK, NonceJSON (uNonce u)), w)"
  using assms by (simp add: GetNonceHandler_def first_user_healthy)

lemma GetNonceHandler_unknown:
  assumes "a \<noteq> []" and "db_faults w = []" and "find (\<lambda>u. uAddress u = a) (users w) = None"
    and "32 \<le> length (entropy w)"
  shows "GetNonceHandler a w
           = ((StatusOK, NonceJSON (EncodeToString (take 32 (entropy w)))), w\<lparr>entropy := drop 32 (entropy w)\<rparr>)"
  using assms by (simp add: GetNonceHandler_def first_user_healthy GenerateNonce_enough)

text \<open>
  C4, as stated, fails: for an address with no identity, \<open>GetNonceHandler\<close> answers with
  a fresh nonce and stores nothing. After the call the identity still does not exist, and
  the next call answers with another nonce.
\<close>

theorem GetNonceHandler_counterexample:
  "find (\<lambda>u. uAddress u = alice) (users fresh_world) = None
   \<and> fst (GetNonceHandler alice fresh_world) = (StatusOK, NonceJSON (nonce_of 0xaa))
   \<and> users (snd (GetNonceHandler alice fresh_world)) = []
   \<and> fst (GetNonceHandler alice (snd (GetNonceHandler alice fresh_world)))
       = (StatusOK, NonceJSON (nonce_of 0xbb))
   \<and> nonce_of 0xaa \<noteq> nonce_of 0xbb"
  by code_simp

text \<open>
  C4, amended. \<open>GetNonceHandler\<close> never changes the table of identities. With a healthy
  store: if the identity exists the answer is its stored nonce, and a second call
  answers the same; if the identity does not exist and the random source delivers, the
  answer is a freshly generated nonce, and the identity still does not exist afterwards.
\<close>

theorem GetNonceHandler_read_only:
  "users (snd (GetNonceHandler a w)) = users w
   \<and> (a \<noteq> [] \<and> db_faults w = [] \<and> find (\<lambda>u. uAddress u = a) (users w) = Some u \<longrightarrow>
        fst (GetNonceHandler a w) = (StatusOK, NonceJSON (uNonce u))
        \<and> fst (GetNonceHandler a (snd (GetNonceHandler a w))) = (StatusOK, NonceJSON (uNonce u)))
   \<and> (a \<noteq> [] \<and> db_faults w = [] \<and> find (\<lambda>u. uAddress u = a) (users w) = None
        \<and> 32 \<le> length (entropy w) \<longrightarrow>
        fst (GetNonceHandler a w) = (StatusOK, NonceJSON (EncodeToString (take 32 (entropy w))))
        \<and> find (\<lambda>u. uAddress u = a) (users (snd (GetNonceHandler a w))) = None)"
proof (intro conjI impI)
  show "users (snd (GetNonceHandler a w)) = users w"
    using GetNonceHandler_frame by blast
next
  assume h: "a \<noteq> [] \<and> db_faults w = [] \<and> find (\<lambda>u. uAddress u = a) (users w) = Some u"
  then have run: "GetNonceHandler a w = ((StatusOK, NonceJSON (uNonce u)), w)"
    using GetNonceHandler_known by blast
  then show "fst (GetNonceHandler a w) = (StatusOK, NonceJSON (uNonce u))"
    by simp
  from run show "fst (GetNonceHandler a (snd (GetNonceHandler a w))) = (StatusOK, NonceJSON (uNonce u))"
    by simp
next
  assume h: "a \<noteq> [] \<and> db_faults w = [] \<and> find (\<lambda>u. uAddress u = a) (users w) = None
        \<and> 32 \<le> length (entropy w)"
  then show "fst (GetNonceHandler a w) = (StatusOK, NonceJSON (EncodeToString (take 32 (entropy w))))"
    using GetNonceHandler_unknown [of a w] by simp
  from h show "find (\<lambda>u. uAddress u = a) (users (snd (GetNonceHandler a w))) = None"
    using GetNonceHandler_frame [of a w] by simp
qed

theorem GetNonceHandler_read_only_witness:
  "alice \<noteq> [] \<and> db_faults demo_world = []
   \<and> find (\<lambda>u. uAddress u = alice) (users demo_world) = Some (hd (users demo_world))
   \<and> fst (GetNonceHandler alice demo_world) = (StatusOK, NonceJSON (nonce_of 0x01))
   \<and> fst (GetNonceHandler alice (snd (GetNonceHandler alice demo_world)))
       = (StatusOK, NonceJSON (nonce_of 0x01))
   \<and> db_faults fresh_world = [] \<and> find (\<lambda>u. uAddress u = alice) (users fresh_world) = None
   \<and> 32 \<le> length (entropy fresh_world)
   \<and> fst (GetNonceHandler alice fresh_world)
       = (StatusOK, NonceJSON (EncodeToString (take 32 (entropy fresh_world))))
   \<and> find (\<lambda>u. uAddress u = alice) (users (snd (GetNonceHandler alice fresh_world))) = None"
proof -
  have a: "alice \<noteq> []"
    by (simp add: alice_def)
  have k: "db_faults demo_world = []"
    "find (\<lambda>u. uAddress u = alice) (users demo_world) = Some (hd (users demo_world))"
    by (simp_all add: demo_world_def)
  have n: "uNonce (hd (users demo_world)) = nonce_of 0x01"
    by (simp add: demo_world_def)
  have f: "db_faults fresh_world = []" "find (\<lambda>u. uAddress u = alice) (users fresh_world) = None"
    "32 \<le> length (entropy fresh_world)"
    by (simp_all add: fresh_world_def demo_entropy_def)
  from GetNonceHandler_read_only [of alice demo_world "hd (users demo_world)"] a k n
  have 1: "fst (GetNonceHandler alice demo_world) = (StatusOK, NonceJSON (nonce_of 0x01))
           \<and> fst (GetNonceHandler alice (snd (GetNonceHandler alice demo_world)))
               = (StatusOK, NonceJSON (nonce_of 0x01))"
    by simp
  from GetNonceHandler_read_only [of alice fresh_world] a f
  have 2: "fst (GetNonceHandler alice fresh_world)
             = (StatusOK, NonceJSON (EncodeToString (take 32 (entropy fresh_world))))
           \<and> find (\<lambda>u. uAddress u = alice) (users (snd (GetNonceHandler alice fresh_world))) = None"
    by blast
  from a k f 1 2 show ?thesis
    by blast
qed

subsection \<open>The credential in the content handlers\<close>

lemma headerAddress_credential: "length address = 42 \<Longrightarrow> headerAddress (address @ '':'' @ nonce) = address"
  by (simp add: headerAddress_def)

lemma CreateContentHandler_header:
  "h \<noteq> [] \<Longrightarrow> h' \<noteq> [] \<Longrightarrow> headerAddress h = headerAddress h' \<Longrightarrow>
     CreateContentHandler L body h w = CreateContentHandler L body h' w"
  by (simp add: CreateContentHandler_def split: option.split)

lemma ListContentHandler_header:
  "h \<noteq> [] \<Longrightarrow> h' \<noteq> [] \<Longrightarrow> headerAddress h = headerAddress h' \<Longrightarrow>
     ListContentHandler h w = ListContentHandler h' w"
  by (simp add: ListContentHandler_def)

lemma DecryptContentHandler_header:
  "h \<noteq> [] \<Longrightarrow> h' \<noteq> [] \<Longrightarrow> headerAddress h = headerAddress h' \<Longrightarrow>
     DecryptContentHandler L body h w = DecryptContentHandler L body h' w"
  by (simp add: DecryptContentHandler_def split: option.split)

lemma GetContentDetailHandler_header:
  "h \<noteq> [] \<Longrightarrow> h' \<noteq> [] \<Longrightarrow> headerAddress h = headerAddress h' \<Longrightarrow>
     GetContentDetailHandler L i h w = GetContentDetailHandler L i h' w"
  by (simp add: GetContentDetailHandler_def)

text \<open>
  C3, as stated, fails. Alice logs in and gets the token for the nonce \<open>aa\<dots>\<close>; she logs
  in again and her nonce is rotated to \<open>bb\<dots>\<close>. The first token, now bound to a stale
  nonce, still creates a record, lists her records, reads the detail of record 1 and
  passes the decrypt request for it.
\<close>

theorem stale_credential_counterexample:
  "fst (LoginHandler demo_libs (Some login_challenge) demo_world)
     = (StatusOK, LoginResponse True (alice @ '':'' @ nonce_of 0xaa) alice)
   \<and> snd (LoginHandler demo_libs (Some login_again)
            (snd (LoginHandler demo_libs (Some login_challenge) demo_world))) = rotated_world
   \<and> map_option uNonce (find (\<lambda>u. uAddress u = alice) (users rotated_world)) = Some (nonce_of 0xbb)
   \<and> fst (CreateContentHandler demo_libs (Some create_req) (alice @ '':'' @ nonce_of 0xaa) rotated_world)
       = (StatusOK, CreatedJSON 3)
   \<and> fst (ListContentHandler (alice @ '':'' @ nonce_of 0xaa) rotated_world)
       = (StatusOK, ListJSON [\<lparr>crID = 1, crTitle = ''seed'', crCreatedAt = 0\<rparr>])
   \<and> fst (GetContentDetailHandler demo_libs ''1'' (alice @ '':'' @ nonce_of 0xaa) rotated_world)
       = (StatusOK, DetailJSON 1 ''seed'' 0 (nonce_of 0x03))
   \<and> fst (fst (DecryptContentHandler demo_libs (Some decrypt_own) (alice @ '':'' @ nonce_of 0xaa)
                  rotated_world)) = StatusOK"
  by code_simp

text \<open>
  C3, amended. The content operations (create, list, decrypt, get-detail) read the first
  42 characters of the \<open>Authorization\<close> header, the address of the credential, and never
  compare the rest with the stored nonce: a request that presents a credential bound to
  a stale nonce gets exactly the result of the same request with the current credential.
\<close>

theorem content_handlers_ignore_nonce:
  "length address = 42 \<longrightarrow>
     CreateContentHandler L cbody (address @ '':'' @ stale) w
       = CreateContentHandler L cbody (address @ '':'' @ current) w
     \<and> ListContentHandler (address @ '':'' @ stale) w
         = ListContentHandler (address @ '':'' @ current) w
     \<and> DecryptContentHandler L dbody (address @ '':'' @ stale) w
         = DecryptContentHandler L dbody (address @ '':'' @ current) w
     \<and> GetContentDetailHandler L contentID (address @ '':'' @ stale) w
         = GetContentDetailHandler L contentID (address @ '':'' @ current) w"
proof
  assume n: "length address = 42"
  have h: "headerAddress (address @ '':'' @ stale) = headerAddress (address @ '':'' @ current)"
    using headerAddress_credential [OF n] by simp
  have ne: "address @ '':'' @ stale \<noteq> []" "address @ '':'' @ current \<noteq> []"
    by simp_all
  show "CreateContentHandler L cbody (address @ '':'' @ stale) w
       = CreateContentHandler L cbody (address @ '':'' @ current) w
     \<and> ListContentHandler (address @ '':'' @ stale) w
         = ListContentHandler (address @ '':'' @ current) w
     \<and> DecryptContentHandler L dbody (address @ '':'' @ stale) w
         = DecryptContentHandler L dbody (address @ '':'' @ current) w
     \<and> GetContentDetailHandler L contentID (address @ '':'' @ stale) w
         = GetContentDetailHandler L contentID (address @ '':'' @ current) w"
    using CreateContentHandler_header [OF ne h] ListContentHandler_header [OF ne h]
      DecryptContentHandler_header [OF ne h] GetContentDetailHandler_header [OF ne h]
    by blast
qed

theorem content_handlers_ignore_nonce_witness:
  "length alice = 42
   \<and> CreateContentHandler demo_libs (Some create_req) (alice @ '':'' @ nonce_of 0xaa) rotated_world
       = CreateContentHandler demo_libs (Some create_req) (alice @ '':'' @ nonce_of 0xbb) rotated_world
   \<and> ListContentHandler (alice @ '':'' @ nonce_of 0xaa) rotated_world
       = ListContentHandler (alice @ '':'' @ nonce_of 0xbb) rotated_world
   \<and> DecryptContentHandler demo_libs (Some decrypt_own) (alice @ '':'' @ nonce_of 0xaa) rotated_world
       = DecryptContentHandler demo_libs (Some decrypt_own) (alice @ '':'' @ nonce_of 0xbb) rotated_world
   \<and> GetContentDetailHandler demo_libs ''1'' (alice @ '':'' @ nonce_of 0xaa) rotated_world
       = GetContentDetailHandler demo_libs ''1'' (alice @ '':'' @ nonce_of 0xbb) rotated_world"
proof -
  have n: "length alice = 42"
    by (simp add: alice_def)
  from content_handlers_ignore_nonce
         [of alice demo_libs "Some create_req" "nonce_of 0xaa" rotated_world "nonce_of 0xbb"
             "Some decrypt_own" "''1''"] n
  show ?thesis
    by blast
qed

subsection \<open>Decrypt authorization\<close>

lemma first_content_healthy:
  "db_faults w = [] \<Longrightarrow>
     first_content i a w = (case find (\<lambda>c. cID c = i \<and> cUserAddress c = a) (contents w) of
                              None \<Rightarrow> (Inl ErrRecordNotFound, w) | Some c \<Rightarrow> (Inr c, w))"
  by (simp add: first_content_def db_call_healthy)

lemma first_content_absent:
  "find (\<lambda>c. cID c = i \<and> cUserAddress c = a) (contents w) = None \<Longrightarrow>
     first_content i a w =
       (case db_faults w of
          [] \<Rightarrow> (Inl ErrRecordNotFound, w)
        | f # fs \<Rightarrow> (if f then Inl ErrOther else Inl ErrRecordNotFound, w\<lparr>db_faults := fs\<rparr>))"
  by (simp add: first_content_def db_call_def split: list.splits)

lemma DecryptContentHandler_invalid_signature:
  assumes "ShouldBindJSON_Decrypt body = Some req" and "h \<noteq> []"
    and "VerifyEthereumSignature L (GenerateDecryptMessage (dcContentID req) (dcNonce req))
           (dcSignature req) (headerAddress h) = Inr False"
  shows "DecryptContentHandler L body h w = ((StatusUnauthorized, ErrorResponse ''Invalid signature''), w)"
  using assms by (simp add: DecryptContentHandler_def)

lemma DecryptContentHandler_nonce_mismatch:
  assumes "ShouldBindJSON_Decrypt body = Some req" and "h \<noteq> []"
    and "VerifyEthereumSignature L (GenerateDecryptMessage (dcContentID req) (dcNonce req))
           (dcSignature req) (headerAddress h) = Inr True"
    and "db_faults w = []"
    and "find (\<lambda>c. cID c = dcContentID req \<and> cUserAddress c = headerAddress h) (contents w) = Some c"
    and "cNonce c \<noteq> dcNonce req"
  shows "DecryptContentHandler L body h w = ((StatusUnauthorized, ErrorResponse ''Invalid nonce''), w)"
  using assms by (simp add: DecryptContentHandler_def first_content_healthy)

lemma DecryptContentHandler_absent_frame:
  assumes "find (\<lambda>c. cID c = dcContentID req \<and> cUserAddress c = headerAddress h) (contents w) = None"
  shows "users (snd (DecryptContentHandler L (Some req) h w)) = users w
         \<and> contents (snd (DecryptContentHandler L (Some req) h w)) = contents w
         \<and> entropy (snd (DecryptContentHandler L (Some req) h w)) = entropy w"
proof (cases "ShouldBindJSON_Decrypt (Some req)")
  case None
  then show ?thesis
    by (simp add: DecryptContentHandler_def)
next
  case (Some req')
  then have req': "req' = req"
    by (auto simp add: ShouldBindJSON_Decrypt_def split: if_splits)
  obtain b where b: "VerifyEthereumSignature L (GenerateDecryptMessage (dcContentID req) (dcNonce req))
         (dcSignature req) (headerAddress h) = Inr b"
    using VerifyEthereumSignature_returns by blast
  from first_content_absent [OF assms] Some req' b show ?thesis
    by (simp add: DecryptContentHandler_def split: list.splits)
qed

lemma DecryptContentHandler_absent_same:
  fixes w w0 :: world
  assumes "find (\<lambda>c. cID c = dcContentID req \<and> cUserAddress c = headerAddress h) (contents w) = None"
    and "find (\<lambda>c. cID c = dcContentID req \<and> cUserAddress c = headerAddress h) (contents w0) = None"
    and "db_faults w = db_faults w0"
  shows "fst (DecryptContentHandler L (Some req) h w) = fst (DecryptContentHandler L (Some req) h w0)"
proof (cases "ShouldBindJSON_Decrypt (Some req)")
  case None
  then show ?thesis
    by (simp add: DecryptContentHandler_def)
next
  case (Some req')
  then have req': "req' = req"
    by (auto simp add: ShouldBindJSON_Decrypt_def split: if_splits)
  obtain b where b: "VerifyEthereumSignature L (GenerateDecryptMessage (dcContentID req) (dcNonce req))
         (dcSignature req) (headerAddress h) = Inr b"
    using VerifyEthereumSignature_returns by blast
  from first_content_absent [OF assms(1)] first_content_absent [OF assms(2)] Some req' b assms(3)
  show ?thesis
    by (simp add: DecryptContentHandler_def split: list.splits)
qed

lemma DecryptContentHandler_not_found:
  assumes "ShouldBindJSON_Decrypt body = Some req" and "h \<noteq> []"
    and "VerifyEthereumSignature L (GenerateDecryptMessage (dcContentID req) (dcNonce req))
           (dcSignature req) (headerAddress h) = Inr True"
    and "db_faults w = []"
    and "find (\<lambda>c. cID c = dcContentID req \<and> cUserAddress c = headerAddress h) (contents w) = None"
  shows "DecryptContentHandler L body h w = ((StatusNotFound, ErrorResponse ''Content not found''), w)"
  using assms by (simp add: DecryptContentHandler_def first_content_healthy)

lemma DecryptContentHandler_message_unread:
  assumes "dcMessage req \<noteq> []" and "m \<noteq> []"
  shows "DecryptContentHandler L (Some (req\<lparr>dcMessage := m\<rparr>)) h w = DecryptContentHandler L (Some req) h w"
  using assms
  by (simp add: DecryptContentHandler_def ShouldBindJSON_Decrypt_def Let_def
      cong: sum.case_cong prod.case_cong db_error.case_cong if_cong)

lemma ShouldBindJSON_Decrypt_Some: "ShouldBindJSON_Decrypt body = Some req \<Longrightarrow> body = Some req"
  by (auto simp add: ShouldBindJSON_Decrypt_def split: option.splits if_splits)

lemma find_None_foreign:
  assumes "\<forall>c \<in> set cs. cID c = i \<longrightarrow> cUserAddress c \<noteq> a"
  shows "find (\<lambda>c. cID c = i \<and> cUserAddress c = a) cs = None"
  using assms by (auto simp add: find_None_iff)

lemma find_None_missing:
  assumes "\<forall>c \<in> set cs. cID c \<noteq> i"
  shows "find (\<lambda>c. cID c = i \<and> cUserAddress c = a) cs = None"
  using assms by (auto simp add: find_None_iff)

text \<open>
  C5, as stated, fails: both failures have status 401, but the error payloads differ.
  A forged signature for Alice's record is answered \<open>Invalid signature\<close>; her signature
  over the challenge for a nonce that is not the stored one is answered \<open>Invalid nonce\<close>.
\<close>

theorem DecryptContentHandler_payload_counterexample:
  "fst (DecryptContentHandler demo_libs (Some decrypt_forged) alice demo_world)
     = (StatusUnauthorized, ErrorResponse ''Invalid signature'')
   \<and> fst (DecryptContentHandler demo_libs (Some decrypt_stale) alice demo_world)
       = (StatusUnauthorized, ErrorResponse ''Invalid nonce'')"
  by code_simp

text \<open>
  C5, amended. A decrypt request that fails on the signature and one that fails on the
  nonce are both answered with status 401 Unauthorized, the first with the error
  \<open>Invalid signature\<close> and the second with the error \<open>Invalid nonce\<close>: the same status
  class, and payloads that tell the two apart.
\<close>

theorem DecryptContentHandler_unauthorized_payloads:
  assumes "ShouldBindJSON_Decrypt body = Some req" and "h \<noteq> []"
    and "VerifyEthereumSignature L (GenerateDecryptMessage (dcContentID req) (dcNonce req))
           (dcSignature req) (headerAddress h) = Inr False"
    and "ShouldBindJSON_Decrypt body' = Some req'" and "h' \<noteq> []"
    and "VerifyEthereumSignature L (GenerateDecryptMessage (dcContentID req') (dcNonce req'))
           (dcSignature req') (headerAddress h') = Inr True"
    and "db_faults w' = []"
    and "find (\<lambda>c. cID c = dcContentID req' \<and> cUserAddress c = headerAddress h') (contents w') = Some c"
    and "cNonce c \<noteq> dcNonce req'"
  shows "fst (DecryptContentHandler L body h w) = (StatusUnauthorized, ErrorResponse ''Invalid signature'')
         \<and> fst (DecryptContentHandler L body' h' w') = (StatusUnauthorized, ErrorResponse ''Invalid nonce'')
         \<and> fst (fst (DecryptContentHandler L body h w)) = fst (fst (DecryptContentHandler L body' h' w'))
         \<and> snd (fst (DecryptContentHandler L body h w)) \<noteq> snd (fst (DecryptContentHandler L body' h' w'))"
proof -
  have 1: "DecryptContentHandler L body h w = ((StatusUnauthorized, ErrorResponse ''Invalid signature''), w)"
    using assms(1-3) by (rule DecryptContentHandler_invalid_signature)
  have 2: "DecryptContentHandler L body' h' w' = ((StatusUnauthorized, ErrorResponse ''Invalid nonce''), w')"
    using assms(4-9) by (rule DecryptContentHandler_nonce_mismatch)
  show ?thesis
    by (simp add: 1 2)
qed

theorem DecryptContentHandler_unauthorized_payloads_witness:
  "ShouldBindJSON_Decrypt (Some decrypt_forged) = Some decrypt_forged \<and> alice \<noteq> []
   \<and> VerifyEthereumSignature demo_libs
        (GenerateDecryptMessage (dcContentID decrypt_forged) (dcNonce decrypt_forged))
        (dcSignature decrypt_forged) (headerAddress alice) = Inr False
   \<and> ShouldBindJSON_Decrypt (Some decrypt_stale) = Some decrypt_stale
   \<and> VerifyEthereumSignature demo_libs
        (GenerateDecryptMessage (dcContentID decrypt_stale) (dcNonce decrypt_stale))
        (dcSignature decrypt_stale) (headerAddress alice) = Inr True
   \<and> db_faults demo_world = []
   \<and> find (\<lambda>c. cID c = dcContentID decrypt_stale \<and> cUserAddress c = headerAddress alice)
        (contents demo_world) = Some (hd (contents demo_world))
   \<and> cNonce (hd (contents demo_world)) \<noteq> dcNonce decrypt_stale
   \<and> fst (DecryptContentHandler demo_libs (Some decrypt_forged) alice demo_world)
       = (StatusUnauthorized, ErrorResponse ''Invalid signature'')
   \<and> fst (DecryptContentHandler demo_libs (Some decrypt_stale) alice demo_world)
       = (StatusUnauthorized, ErrorResponse ''Invalid nonce'')"
proof -
  have b1: "ShouldBindJSON_Decrypt (Some decrypt_forged) = Some decrypt_forged"
    by code_simp
  have a: "alice \<noteq> []"
    by (simp add: alice_def)
  have s1: "VerifyEthereumSignature demo_libs
        (GenerateDecryptMessage (dcContentID decrypt_forged) (dcNonce decrypt_forged))
        (dcSignature decrypt_forged) (headerAddress alice) = Inr False"
    by code_simp
  have b2: "ShouldBindJSON_Decrypt (Some decrypt_stale) = Some decrypt_stale"
    by code_simp
  have s2: "VerifyEthereumSignature demo_libs
        (GenerateDecryptMessage (dcContentID decrypt_stale) (dcNonce decrypt_stale))
        (dcSignature decrypt_stale) (headerAddress alice) = Inr True"
    by code_simp
  have d: "db_faults demo_world = []"
    by (simp add: demo_world_def)
  have f: "find (\<lambda>c. cID c = dcContentID decrypt_stale \<and> cUserAddress c = headerAddress alice)
        (contents demo_world) = Some (hd (contents demo_world))"
    by code_simp
  have n: "cNonce (hd (contents demo_world)) \<noteq> dcNonce decrypt_stale"
    by code_simp
  from DecryptContentHandler_unauthorized_payloads
         [OF b1 a s1 b2 a s2 d f n, of demo_world]
  have "fst (DecryptContentHandler demo_libs (Some decrypt_forged) alice demo_world)
       = (StatusUnauthorized, ErrorResponse ''Invalid signature'')
   \<and> fst (DecryptContentHandler demo_libs (Some decrypt_stale) alice demo_world)
       = (StatusUnauthorized, ErrorResponse ''Invalid nonce'')"
    by blast
  with b1 a s1 b2 s2 d f n show ?thesis
    by blast
qed

text \<open>
  C6. A decrypt request for a record id that exists in the store but only under other
  owners than the caller's address gets the same response as the same request against
  a store where the id does not exist at all (both stores equally healthy), and neither
  run changes the tables or the random source. When the signature verifies and the
  store is healthy that response is 404 \<open>Content not found\<close>.
\<close>

theorem DecryptContentHandler_ownership_isolation:
  fixes w w0 :: world
  assumes "\<exists>c \<in> set (contents w). cID c = dcContentID req"
    and "\<forall>c \<in> set (contents w). cID c = dcContentID req \<longrightarrow> cUserAddress c \<noteq> headerAddress h"
    and "\<forall>c \<in> set (contents w0). cID c \<noteq> dcContentID req"
    and "db_faults w = db_faults w0"
  shows "fst (DecryptContentHandler L (Some req) h w) = fst (DecryptContentHandler L (Some req) h w0)
         \<and> users (snd (DecryptContentHandler L (Some req) h w)) = users w
         \<and> contents (snd (DecryptContentHandler L (Some req) h w)) = contents w
         \<and> entropy (snd (DecryptContentHandler L (Some req) h w)) = entropy w
         \<and> users (snd (DecryptContentHandler L (Some req) h w0)) = users w0
         \<and> contents (snd (DecryptContentHandler L (Some req) h w0)) = contents w0
         \<and> entropy (snd (DecryptContentHandler L (Some req) h w0)) = entropy w0
         \<and> (ShouldBindJSON_Decrypt (Some req) = Some req \<and> h \<noteq> []
              \<and> VerifyEthereumSignature L (GenerateDecryptMessage (dcContentID req) (dcNonce req))
                   (dcSignature req) (headerAddress h) = Inr True
              \<and> db_faults w = [] \<longrightarrow>
            fst (DecryptContentHandler L (Some req) h w)
              = (StatusNotFound, ErrorResponse ''Content not found''))"
proof -
  have foreign: "find (\<lambda>c. cID c = dcContentID req \<and> cUserAddress c = headerAddress h) (contents w) = None"
    using assms(2) by (rule find_None_foreign)
  have missing: "find (\<lambda>c. cID c = dcContentID req \<and> cUserAddress c = headerAddress h) (contents w0) = None"
    using assms(3) by (rule find_None_missing)
  have same: "fst (DecryptContentHandler L (Some req) h w) = fst (DecryptContentHandler L (Some req) h w0)"
    using foreign missing assms(4) by (rule DecryptContentHandler_absent_same)
  have nf: "fst (DecryptContentHandler L (Some req) h w) = (StatusNotFound, ErrorResponse ''Content not found'')"
    if "ShouldBindJSON_Decrypt (Some req) = Some req \<and> h \<noteq> []
              \<and> VerifyEthereumSignature L (GenerateDecryptMessage (dcContentID req) (dcNonce req))
                   (dcSignature req) (headerAddress h) = Inr True
              \<and> db_faults w = []"
    using that foreign DecryptContentHandler_not_found [of "Some req" req h L w] by simp
  show ?thesis
    using same nf DecryptContentHandler_absent_frame [OF foreign, of L]
      DecryptContentHandler_absent_frame [OF missing, of L]
    by blast
qed

theorem DecryptContentHandler_ownership_isolation_witness:
  "map cUserAddress (filter (\<lambda>c. cID c = dcContentID decrypt_foreign) (contents demo_world)) = [bob]
   \<and> bob \<noteq> headerAddress alice
   \<and> filter (\<lambda>c. cID c = dcContentID decrypt_foreign) (contents fresh_world) = []
   \<and> db_faults demo_world = db_faults fresh_world
   \<and> ShouldBindJSON_Decrypt (Some decrypt_foreign) = Some decrypt_foreign \<and> alice \<noteq> []
   \<and> VerifyEthereumSignature demo_libs
        (GenerateDecryptMessage (dcContentID decrypt_foreign) (dcNonce decrypt_foreign))
        (dcSignature decrypt_foreign) (headerAddress alice) = Inr True
   \<and> db_faults demo_world = []
   \<and> fst (DecryptContentHandler demo_libs (Some decrypt_foreign) alice demo_world)
       = (StatusNotFound, ErrorResponse ''Content not found'')
   \<and> fst (DecryptContentHandler demo_libs (Some decrypt_foreign) alice fresh_world)
       = (StatusNotFound, ErrorResponse ''Content not found'')
   \<and> contents (snd (DecryptContentHandler demo_libs (Some decrypt_foreign) alice demo_world))
       = contents demo_world"
proof -
  have owner: "map cUserAddress (filter (\<lambda>c. cID c = dcContentID decrypt_foreign) (contents demo_world)) = [bob]"
    "bob \<noteq> headerAddress alice"
    "filter (\<lambda>c. cID c = dcContentID decrypt_foreign) (contents fresh_world) = []"
    by code_simp+
  have e: "\<exists>c \<in> set (contents demo_world). cID c = dcContentID decrypt_foreign"
    by code_simp
  have o: "\<forall>c \<in> set (contents demo_world).
         cID c = dcContentID decrypt_foreign \<longrightarrow> cUserAddress c \<noteq> headerAddress alice"
    by code_simp
  have m: "\<forall>c \<in> set (contents fresh_world). cID c \<noteq> dcContentID decrypt_foreign"
    by (simp add: fresh_world_def)
  have d: "db_faults demo_world = db_faults fresh_world" and d0: "db_faults demo_world = []"
    by (simp_all add: demo_world_def fresh_world_def)
  have b: "ShouldBindJSON_Decrypt (Some decrypt_foreign) = Some decrypt_foreign"
    by code_simp
  have a: "alice \<noteq> []"
    by (simp add: alice_def)
  have s: "VerifyEthereumSignature demo_libs
        (GenerateDecryptMessage (dcContentID decrypt_foreign) (dcNonce decrypt_foreign))
        (dcSignature decrypt_foreign) (headerAddress alice) = Inr True"
    by code_simp
  note T = DecryptContentHandler_ownership_isolation [OF e o m d, of demo_libs]
  from T b a s d0
  have 1: "fst (DecryptContentHandler demo_libs (Some decrypt_foreign) alice demo_world)
       = (StatusNotFound, ErrorResponse ''Content not found'')"
    by blast
  from T 1
  have 2: "fst (DecryptContentHandler demo_libs (Some decrypt_foreign) alice fresh_world)
       = (StatusNotFound, ErrorResponse ''Content not found'')"
    by simp
  from T have 3: "contents (snd (DecryptContentHandler demo_libs (Some decrypt_foreign) alice demo_world))
       = contents demo_world"
    by blast
  from owner d b a s d0 1 2 3 show ?thesis
    by blast
qed

text \<open>
  C9, as stated, fails at the empty message: the \<open>Message\<close> field is \<open>required\<close>, so
  the request with an empty message is answered 400 while the otherwise identical request
  with the message \<open>x\<close> is authorized.
\<close>

theorem DecryptContentHandler_message_counterexample:
  "fst (DecryptContentHandler demo_libs (Some (decrypt_own\<lparr>dcMessage := []\<rparr>)) alice demo_world)
     = (StatusBadRequest, ErrorResponse ''Invalid request format'')
   \<and> fst (fst (DecryptContentHandler demo_libs (Some (decrypt_own\<lparr>dcMessage := ''x''\<rparr>)) alice
                  demo_world)) = StatusOK"
  by code_simp

text \<open>
  C9, amended. The outcome of a decrypt request does not depend on what the \<open>Message\<close>
  field says, as long as it says something: the signature is verified against the
  challenge the server builds from \<open>ContentID\<close> and \<open>Nonce\<close>, so two requests that differ
  only in their non-empty messages get the same response and leave the same state. A
  request with an empty message is rejected as malformed.
\<close>

theorem DecryptContentHandler_ignores_message:
  "(dcMessage req \<noteq> [] \<and> m \<noteq> [] \<longrightarrow>
      DecryptContentHandler L (Some (req\<lparr>dcMessage := m\<rparr>)) h w = DecryptContentHandler L (Some req) h w)
   \<and> (dcMessage req = [] \<longrightarrow>
        DecryptContentHandler L (Some req) h w
          = ((StatusBadRequest, ErrorResponse ''Invalid request format''), w))"
proof -
  have "DecryptContentHandler L (Some req) h w
          = ((StatusBadRequest, ErrorResponse ''Invalid request format''), w)"
    if "dcMessage req = []"
    using that by (simp add: DecryptContentHandler_def ShouldBindJSON_Decrypt_def)
  then show ?thesis
    using DecryptContentHandler_message_unread by blast
qed

theorem DecryptContentHandler_ignores_message_witness:
  "dcMessage decrypt_own \<noteq> [] \<and> ''x'' \<noteq> []
   \<and> DecryptContentHandler demo_libs (Some (decrypt_own\<lparr>dcMessage := ''x''\<rparr>)) alice demo_world
       = DecryptContentHandler demo_libs (Some decrypt_own) alice demo_world
   \<and> dcMessage (decrypt_own\<lparr>dcMessage := []\<rparr>) = []
   \<and> DecryptContentHandler demo_libs (Some (decrypt_own\<lparr>dcMessage := []\<rparr>)) alice demo_world
       = ((StatusBadRequest, ErrorResponse ''Invalid request format''), demo_world)"
proof -
  have n: "dcMessage decrypt_own \<noteq> []"
    by code_simp
  have x: "''x'' \<noteq> []"
    by simp
  have e: "dcMessage (decrypt_own\<lparr>dcMessage := []\<rparr>) = []"
    by simp
  from DecryptContentHandler_ignores_message [of decrypt_own "''x''" demo_libs alice demo_world] n x
  have 1: "DecryptContentHandler demo_libs (Some (decrypt_own\<lparr>dcMessage := ''x''\<rparr>)) alice demo_world
       = DecryptContentHandler demo_libs (Some decrypt_own) alice demo_world"
    by blast
  from DecryptContentHandler_ignores_message
         [of "decrypt_own\<lparr>dcMessage := []\<rparr>" _ demo_libs alice demo_world] e
  have 2: "DecryptContentHandler demo_libs (Some (decrypt_own\<lparr>dcMessage := []\<rparr>)) alice demo_world
       = ((StatusBadRequest, ErrorResponse ''Invalid request format''), demo_world)"
    by blast
  from n x e 1 2 show ?thesis
    by blast
qed

subsection \<open>Replay\<close>

lemma save_content_healthy:
  "db_faults w = [] \<Longrightarrow> x \<in> set (contents w) \<Longrightarrow> cID y = cID x \<Longrightarrow>
     save_content y w
       = (Inr (y\<lparr>cUpdatedAt := clock w\<rparr>),
          w\<lparr>contents := map (\<lambda>c. if cID c = cID x then y\<lparr>cUpdatedAt := clock w\<rparr> else c) (contents w)\<rparr>)"
  by (auto simp add: save_content_def db_call_healthy Let_def)

lemma DecryptContentHandler_OK_cases:
  assumes "DecryptContentHandler L body h w = ((StatusOK, b), w')"
  shows "\<exists>req c w1 n w2 r.
           ShouldBindJSON_Decrypt body = Some req \<and> h \<noteq> []
           \<and> VerifyEthereumSignature L (GenerateDecryptMessage (dcContentID req) (dcNonce req))
                (dcSignature req) (headerAddress h) = Inr True
           \<and> first_content (dcContentID req) (headerAddress h) w = (Inr c, w1)
           \<and> cNonce c = dcNonce req
           \<and> GenerateNonce w1 = (Some n, w2)
           \<and> save_content (c\<lparr>cNonce := n\<rparr>) w2 = (r, w')
           \<and> b = DecryptJSON \<lparr>cdID = cID c, cdTitle = cTitle c,
                                cdContent = ''[ENCRYPTED - DECRYPT ON CLIENT]'',
                                cdCreatedAt = cCreatedAt c\<rparr>
                    (cEncryptedData c) (cEncryptedKey c) (cIV c)"
  using assms
  by (auto simp add: DecryptContentHandler_def Let_def
      split: option.splits sum.splits prod.splits db_error.splits if_splits)

text \<open>
  The decrypt half of C2 holds. After an authorized decrypt, with a healthy store and a
  new nonce that differs from the old one, the same request is answered 401
  \<open>Invalid nonce\<close>.
\<close>

lemma DecryptContentHandler_replay_rejected:
  assumes ok: "DecryptContentHandler L (Some req) h w = ((StatusOK, b), w')"
    and healthy: "db_faults w = []"
    and fresh: "EncodeToString (take 32 (entropy w)) \<noteq> dcNonce req"
  shows "DecryptContentHandler L (Some req) h w' = ((StatusUnauthorized, ErrorResponse ''Invalid nonce''), w')"
proof -
  let ?P = "\<lambda>c. cID c = dcContentID req \<and> cUserAddress c = headerAddress h"
  from DecryptContentHandler_OK_cases [OF ok] obtain req' c w1 n w2 r where
    bind: "ShouldBindJSON_Decrypt (Some req) = Some req'" and h: "h \<noteq> []"
    and sig: "VerifyEthereumSignature L (GenerateDecryptMessage (dcContentID req') (dcNonce req'))
                (dcSignature req') (headerAddress h) = Inr True"
    and f: "first_content (dcContentID req') (headerAddress h) w = (Inr c, w1)"
    and g: "GenerateNonce w1 = (Some n, w2)"
    and s: "save_content (c\<lparr>cNonce := n\<rparr>) w2 = (r, w')"
    by blast
  from ShouldBindJSON_Decrypt_Some [OF bind] have req': "req' = req"
    by simp
  from f healthy have w1: "w1 = w" and found: "find ?P (contents w) = Some c"
    by (auto simp add: req' first_content_healthy split: option.splits)
  note G = GenerateNonce_Some [OF g]
  from G w1 have n: "n = EncodeToString (take 32 (entropy w))"
    and w2: "db_faults w2 = []" "contents w2 = contents w"
    using healthy by simp_all
  let ?y = "c\<lparr>cNonce := n, cUpdatedAt := clock w2\<rparr>"
  from find_Some_set [OF found] have mem: "c \<in> set (contents w2)" and P: "?P c"
    using w2 by simp_all
  from save_content_healthy [OF w2(1) mem, of "c\<lparr>cNonce := n\<rparr>"] s
  have w': "w' = w2\<lparr>contents := map (\<lambda>x. if cID x = cID c then ?y else x) (contents w2)\<rparr>"
    by simp
  have "find ?P (map (\<lambda>x. if cID x = cID c then ?y else x) (contents w)) = Some ?y"
    using find_map_update [of ?P "contents w" c ?y cID] found P by simp
  then have found': "find ?P (contents w') = Some ?y"
    using w' w2 by simp
  have healthy': "db_faults w' = []"
    using w' w2 by simp
  have "cNonce ?y \<noteq> dcNonce req"
    using n fresh by simp
  with DecryptContentHandler_nonce_mismatch [OF bind h sig healthy', of ?y] found' req'
  show ?thesis
    by simp
qed

lemma save_user_faults: "db_faults w = [] \<Longrightarrow> db_faults (snd (save_user y w)) = []"
  by (simp add: save_user_def db_call_healthy Let_def)

lemma LoginHandler_rotate_faults:
  "db_faults w = [] \<Longrightarrow> db_faults (snd (LoginHandler_rotate req u w)) = []"
proof (cases "GenerateNonce w")
  case (Pair r w1)
  assume h: "db_faults w = []"
  show ?thesis
  proof (cases r)
    case None
    with Pair GenerateNonce_None [of w w1] h show ?thesis
      by (simp add: LoginHandler_rotate_def)
  next
    case (Some n)
    with Pair GenerateNonce_Some [of w n w1] h have "db_faults w1 = []"
      by simp
    from save_user_faults [OF this, of "u\<lparr>uNonce := n\<rparr>"] Pair Some show ?thesis
      by (auto simp add: LoginHandler_rotate_def split: prod.splits)
  qed
qed

text \<open>
  The login half does not: whatever the libraries and the store, a login that succeeded
  on a healthy store succeeds again when the same request is sent again and the random
  source delivers one more nonce.
\<close>

lemma LoginHandler_second_login:
  assumes ok: "LoginHandler L body w = ((StatusOK, b), w')"
    and healthy: "db_faults w = []"
    and random: "32 \<le> length (entropy w')"
  shows "\<exists>token address. fst (LoginHandler L body w') = (StatusOK, LoginResponse True token address)"
proof -
  from LoginHandler_OK_cases [OF ok] obtain req where
    body: "body = Some req" and bind: "ShouldBindJSON_Login body = Some req"
    and sig: "VerifyEthereumSignature L (lrMessage req) (lrSignature req) (lrAddress req) = Inr True"
    and cases: "(\<exists>user w1. first_user (lrAddress req) w = (Inr user, w1)
                   \<and> LoginHandler_rotate req user w1 = ((StatusOK, b), w'))
              \<or> (\<exists>w1 nonce w2 user w3.
                    first_user (lrAddress req) w = (Inl ErrRecordNotFound, w1)
                    \<and> GenerateNonce w1 = (Some nonce, w2)
                    \<and> create_user \<lparr>uID = 0, uAddress = lrAddress req, uPublicKey = [],
                                     uNonce = nonce, uCreatedAt = 0, uUpdatedAt = 0\<rparr> w2 = (Inr user, w3)
                    \<and> LoginHandler_rotate req user w3 = ((StatusOK, b), w'))"
    by blast
  from cases have "\<exists>user w3. LoginHandler_rotate req user w3 = ((StatusOK, b), w') \<and> db_faults w3 = []"
  proof
    assume "\<exists>user w1. first_user (lrAddress req) w = (Inr user, w1)
                   \<and> LoginHandler_rotate req user w1 = ((StatusOK, b), w')"
    then obtain user w1 where f: "first_user (lrAddress req) w = (Inr user, w1)"
      and r: "LoginHandler_rotate req user w1 = ((StatusOK, b), w')"
      by blast
    from first_user_Inr [OF f] healthy r show ?thesis
      by blast
  next
    assume "\<exists>w1 nonce w2 user w3.
                    first_user (lrAddress req) w = (Inl ErrRecordNotFound, w1)
                    \<and> GenerateNonce w1 = (Some nonce, w2)
                    \<and> create_user \<lparr>uID = 0, uAddress = lrAddress req, uPublicKey = [],
                                     uNonce = nonce, uCreatedAt = 0, uUpdatedAt = 0\<rparr> w2 = (Inr user, w3)
                    \<and> LoginHandler_rotate req user w3 = ((StatusOK, b), w')"
    then obtain w1 nonce w2 user w3 where f: "first_user (lrAddress req) w = (Inl ErrRecordNotFound, w1)"
      and g: "GenerateNonce w1 = (Some nonce, w2)"
      and c: "create_user \<lparr>uID = 0, uAddress = lrAddress req, uPublicKey = [],
                                     uNonce = nonce, uCreatedAt = 0, uUpdatedAt = 0\<rparr> w2 = (Inr user, w3)"
      and r: "LoginHandler_rotate req user w3 = ((StatusOK, b), w')"
      by blast
    from first_user_NotFound [OF f] GenerateNonce_Some [OF g] create_user_Inr [OF c] healthy
    have "db_faults w3 = []"
      by auto
    with r show ?thesis
      by blast
  qed
  then obtain user w3 where r: "LoginHandler_rotate req user w3 = ((StatusOK, b), w')"
    and h3: "db_faults w3 = []"
    by blast
  from LoginHandler_rotate_faults [OF h3, of req user] r have healthy': "db_faults w' = []"
    by simp
  from LoginHandler_OK_stored [OF ok] body healthy obtain u where
    u: "find (\<lambda>u. uAddress u = lrAddress req) (users w') = Some u"
    by auto
  have "first_user (lrAddress req) w' = (Inr u, w')"
    using first_user_healthy [OF healthy'] u by simp
  then have "LoginHandler L body w' = LoginHandler_rotate req u w'"
    using bind sig by (simp add: LoginHandler_def)
  with LoginHandler_rotate_enough [OF random, of req u] show ?thesis
    by simp
qed

end
